theory Spec2Isabelle
  imports Complex_Main "HOL-Library.Log_Nat"
begin

section \<open>JavaScript values\<close>

text \<open>
  The chat service (services/yallaChatService.js) works on JavaScript numbers, strings,
  objects and promises.  A number is the \<^typ>\<open>real\<close> value of a finite double (NaN and
  the infinities are excluded), a property that may be absent as an \<open>option\<close>, and an
  awaited call that may
  reject as a sum whose \<open>Inl\<close> carries the \<open>message\<close> of the thrown error (the
  rejection of the call, or the TypeError of reading an answer that has no \<open>data\<close>).
  Strings are byte lists: a character outside ASCII is held as its UTF-8 bytes.
  Logging is not modelled.
\<close>

subsection \<open>Double-precision rounding\<close>

text \<open>
  A decimal literal such as \<open>0.3\<close> denotes the double nearest to it, and the product of
  two doubles is the double nearest to the exact product: \<open>fl\<close> rounds a real to the
  nearest double, a tie going to the even significand.  \<open>pow2 e\<close> is \<open>2\<close> to the power
  \<open>e\<close>; \<open>binade x\<close> is the exponent \<open>e\<close> with \<open>pow2 e \<le> \<bar>x\<bar> < pow2 (e + 1)\<close>, read
  off the bit length of \<open>\<bar>x\<bar>\<close> scaled by \<open>2 ^ 1074\<close>; doubles are spaced
  \<open>pow2 (e - 52)\<close> apart in that binade and \<open>pow2 (- 1074)\<close> apart below the normal
  range.  Overflow is not modelled: the products of this program have a factor below 1.
  The quotients by 60 that the executors hand to \<open>Math.round\<close> are taken exactly;
  their rounding is not modelled.
\<close>

definition pow2 :: "int \<Rightarrow> real" where
  "pow2 e = (if 0 \<le> e then 2 ^ nat e else 1 / 2 ^ nat (- e))"

definition binade :: "real \<Rightarrow> int" where
  "binade x = bitlen \<lfloor>\<bar>x\<bar> * 2 ^ 1074\<rfloor> - 1075"

text \<open>Rounding to the nearest integer, a tie going to the even one.\<close>

definition rne :: "real \<Rightarrow> int" where
  "rne x =
     (let f = \<lfloor>x\<rfloor>; d = x - of_int f
      in if d < 1 / 2 then f else if 1 / 2 < d then f + 1 else if even f then f else f + 1)"

definition fl :: "real \<Rightarrow> real" where
  "fl x = (let e = max (binade x - 52) (- 1074) in of_int (rne (x / pow2 e)) * pow2 e)"

subsection \<open>Other values\<close>

text \<open>\<open>Math.round\<close>: the nearest integer, a tie going up.\<close>

definition js_round :: "real \<Rightarrow> int" where
  "js_round x = \<lfloor>x + 1 / 2\<rfloor>"

text \<open>
  What a tool executor returns: an object with an \<open>error\<close> property (the failure
  descriptor) or the tool's payload.
\<close>

datatype 'p tool_result = ErrorDescriptor string | Payload 'p

section \<open>Tool executor \<open>get_traffic_flow\<close>\<close>

record flowSegmentData =
  currentSpeed :: real
  freeFlowSpeed :: real
  roadClosure :: "bool option"

record flow_payload =
  currentSpeedKmh :: int
  freeFlowSpeedKmh :: int
  condition :: string
  roadClosed :: bool

text \<open>
  The \<open>if\<close> / \<open>else if\<close> chain of \<open>get_traffic_flow\<close> that assigns \<open>condition\<close>,
  starting from \<open>'clear'\<close>.  Each test compares the current speed with the double
  product of the free-flow speed and the double of the literal (\<open>0.5\<close> is the double
  \<open>1 / 2\<close>).
\<close>

definition flow_condition :: "real \<Rightarrow> real \<Rightarrow> string" where
  "flow_condition cs ffs =
     (if cs < fl (ffs * fl (3 / 10)) then ''severe''
      else if cs < fl (ffs * fl (1 / 2)) then ''heavy''
      else if cs < fl (ffs * fl (7 / 10)) then ''moderate''
      else if cs < fl (ffs * fl (9 / 10)) then ''light''
      else ''clear'')"

text \<open>
  \<open>tomtom lat lon\<close> is the awaited \<open>tomtom.get\<close> on the flow-segment endpoint at the
  point: it rejects (\<open>Inl\<close>) or answers with \<open>response.data.flowSegmentData\<close>, which may
  be absent.
\<close>

definition get_traffic_flow ::
  "(real \<Rightarrow> real \<Rightarrow> string + flowSegmentData option) \<Rightarrow> real \<Rightarrow> real \<Rightarrow> flow_payload tool_result"
where
  "get_traffic_flow tomtom lat lon =
     (case tomtom lat lon of
        Inl msg \<Rightarrow> ErrorDescriptor msg
      | Inr None \<Rightarrow> ErrorDescriptor ''Could not get traffic flow''
      | Inr (Some flow) \<Rightarrow>
          Payload \<lparr> currentSpeedKmh = js_round (currentSpeed flow),
                    freeFlowSpeedKmh = js_round (freeFlowSpeed flow),
                    condition = flow_condition (currentSpeed flow) (freeFlowSpeed flow),
                    roadClosed = (case roadClosure flow of Some b \<Rightarrow> b | None \<Rightarrow> False) \<rparr>)"

section \<open>Rendering numbers in template strings\<close>

text \<open>
  A template literal renders an integer in decimal.  \<open>show_nat\<close> is that rendering for
  a natural number and \<open>show_int\<close> for an integer.
\<close>

definition digit_char :: "nat \<Rightarrow> char" where
  "digit_char n = ''0123456789'' ! n"

fun show_nat :: "nat \<Rightarrow> string" where
  "show_nat n = (if n < 10 then [digit_char n] else show_nat (n div 10) @ [digit_char (n mod 10)])"

declare show_nat.simps [simp del]

definition show_int :: "int \<Rightarrow> string" where
  "show_int i = (if i < 0 then CHR ''-'' # show_nat (nat (- i)) else show_nat (nat i))"

section \<open>Tool executor \<open>get_departure_times\<close>\<close>

record route_summary =
  travelTimeInSeconds :: real
  trafficDelayInSeconds :: "real option"

text \<open>A route of the routing answer; its \<open>summary\<close> may be missing.\<close>

datatype route = Route (summary: "route_summary option")

record departure =
  label :: string
  departureTime :: int
  durationMinutes :: int
  trafficDelayMinutes :: int
  isBest :: "bool option"

record departure_payload =
  departureTimes :: "departure list"
  recommendation :: string

definition offsets :: "nat list" where
  "offsets = [0, 30, 60, 120]"

text \<open>
  One pass of the \<open>for\<close> loop over the offsets.  \<open>clock offset\<close> is what \<open>Date.now()\<close>
  reads in the pass for \<open>offset\<close>; \<open>departAt\<close> is kept in milliseconds (the ISO
  rendering of \<open>toISOString\<close> is not modelled).  \<open>tomtom od departAt\<close> is the awaited
  routing call between the two points \<open>od\<close>: it rejects, or answers with
  \<open>response.data.routes\<close>.  A rejection, and the TypeError of reading a missing
  \<open>summary\<close>, are caught by the inner \<open>try\<close>: the offset is dropped.
\<close>

definition departure_pass ::
  "('c \<Rightarrow> int \<Rightarrow> string + route list option) \<Rightarrow> (nat \<Rightarrow> int) \<Rightarrow> 'c
     \<Rightarrow> departure list \<Rightarrow> nat \<Rightarrow> departure list"
where
  "departure_pass tomtom clock od results offset =
     (let departAt = clock offset + int offset * 60 * 1000 in
      case tomtom od departAt of
        Inl _ \<Rightarrow> results
      | Inr None \<Rightarrow> results
      | Inr (Some []) \<Rightarrow> results
      | Inr (Some (Route None # _)) \<Rightarrow> results
      | Inr (Some (Route (Some sm) # _)) \<Rightarrow>
          results @
            [\<lparr> label = (if offset = 0 then ''Now'' else ''+'' @ show_nat offset @ '' min''),
               departureTime = departAt,
               durationMinutes = js_round (travelTimeInSeconds sm / 60),
               trafficDelayMinutes =
                 js_round ((case trafficDelayInSeconds sm of Some d \<Rightarrow> d | None \<Rightarrow> 0) / 60),
               isBest = None \<rparr>])"

text \<open>
  The part of \<open>get_departure_times\<close> after the loop: the failure descriptor on an empty
  list, otherwise the \<open>reduce\<close> that finds \<open>best\<close>, the \<open>forEach\<close> that sets \<open>isBest\<close>,
  \<open>timeSaved\<close> and the recommendation text.
\<close>

definition recommend :: "departure list \<Rightarrow> departure_payload tool_result" where
  "recommend results =
     (case results of
        [] \<Rightarrow> ErrorDescriptor ''Could not calculate departure times''
      | r0 # _ \<Rightarrow>
         (let best = foldl (\<lambda>m r. if durationMinutes r < durationMinutes m then r else m) r0 results;
              marked = map (\<lambda>r. r\<lparr>isBest := Some (label r = label best)\<rparr>) results;
              timeSaved = durationMinutes r0 - durationMinutes best
          in Payload
               \<lparr> departureTimes = marked,
                  recommendation =
                    (if label best = ''Now'' then ''Now is the best time to leave!''
                     else ''Wait '' @ remove1 (CHR ''+'') (label best) @ '' to save ''
                            @ show_int timeSaved @ '' minutes'') \<rparr>))"

definition get_departure_times ::
  "('c \<Rightarrow> int \<Rightarrow> string + route list option) \<Rightarrow> (nat \<Rightarrow> int) \<Rightarrow> 'c
     \<Rightarrow> departure_payload tool_result"
where
  "get_departure_times tomtom clock od =
     recommend (foldl (departure_pass tomtom clock od) [] offsets)"

section \<open>Tool executor \<open>get_incidents\<close>\<close>

record incident_properties =
  iconCategory :: "int option"
  magnitudeOfDelay :: "int option"
  events :: "string option list option"
  from_road :: "string option"
  to_road :: "string option"
  delay :: "real option"

text \<open>An incident of the upstream answer; its \<open>properties\<close> may be missing.\<close>

datatype incident = Incident (properties: "incident_properties option")

record formatted_incident =
  incident_type :: string
  description :: string
  incident_from :: "string option"
  incident_to :: "string option"
  delayMinutes :: "int option"
  severity :: string

record incidents_payload =
  incidents :: "formatted_incident list"
  clear_message :: "string option"
  totalCount :: "nat option"

text \<open>
  The two lookup tables; a code that is absent or not a key gives the default label.
\<close>

definition getIncidentTypeName :: "int option \<Rightarrow> string" where
  "getIncidentTypeName c =
     (case c of
        None \<Rightarrow> ''Incident''
      | Some k \<Rightarrow>
         (case map_of
            [(0, ''Unknown''), (1, ''Accident''), (2, ''Fog''), (3, ''Dangerous Conditions''),
             (4, ''Rain''), (5, ''Ice''), (6, ''Jam''), (7, ''Lane Closed''), (8, ''Road Closed''),
             (9, ''Road Works''), (10, ''Wind''), (11, ''Flooding''),
             (14, ''Broken Down Vehicle'')] k of
            Some t \<Rightarrow> t
          | None \<Rightarrow> ''Incident''))"

definition getMagnitudeLabel :: "int option \<Rightarrow> string" where
  "getMagnitudeLabel m =
     (case m of
        None \<Rightarrow> ''Unknown''
      | Some k \<Rightarrow>
         (case map_of
            [(0, ''Unknown''), (1, ''Minor''), (2, ''Moderate''), (3, ''Major''),
             (4, ''Severe'')] k of
            Some t \<Rightarrow> t
          | None \<Rightarrow> ''Unknown''))"

text \<open>
  The mapping function of \<open>get_incidents\<close>.  \<open>props\<close> is \<open>inc.properties || {}\<close>; an
  empty description and a zero delay are falsy.
\<close>

definition format_incident :: "incident \<Rightarrow> formatted_incident" where
  "format_incident inc =
     (let props = (case properties inc of
                     Some p \<Rightarrow> p
                   | None \<Rightarrow> \<lparr>iconCategory = None, magnitudeOfDelay = None, events = None,
                               from_road = None, to_road = None, delay = None\<rparr>)
      in \<lparr> incident_type = getIncidentTypeName (iconCategory props),
            description =
              (case events props of
                 Some (Some d # _) \<Rightarrow> (if d = [] then ''Traffic incident'' else d)
               | _ \<Rightarrow> ''Traffic incident''),
            incident_from = from_road props,
            incident_to = to_road props,
            delayMinutes =
              (case delay props of
                 Some d \<Rightarrow> (if d = 0 then None else Some (js_round (d / 60)))
               | None \<Rightarrow> None),
            severity = getMagnitudeLabel (magnitudeOfDelay props) \<rparr>)"

text \<open>
  \<open>tomtom (lat, lon, radiusKm)\<close> is the awaited incident-details call on the bounding
  box that the executor derives from the centre and the radius (the trigonometry of the
  box is not modelled: the box only selects the collaborator's answer).  It rejects, or
  answers with \<open>response.data.incidents\<close>.  An absent \<open>radiusKm\<close> defaults to 5.
\<close>

definition get_incidents ::
  "(real \<times> real \<times> real \<Rightarrow> string + incident list option) \<Rightarrow> real \<Rightarrow> real \<Rightarrow> real option
     \<Rightarrow> incidents_payload tool_result"
where
  "get_incidents tomtom lat lon radiusKm =
     (case tomtom (lat, lon, (case radiusKm of Some r \<Rightarrow> r | None \<Rightarrow> 5)) of
        Inl msg \<Rightarrow> ErrorDescriptor msg
      | Inr found \<Rightarrow>
         (let incs = (case found of Some xs \<Rightarrow> xs | None \<Rightarrow> []) in
          if length incs = 0
          then Payload \<lparr> incidents = [],
                         clear_message = Some ''No incidents reported in this area - roads are clear!'',
                         totalCount = None \<rparr>
          else Payload \<lparr> incidents = map format_incident (take 5 incs),
                         clear_message = None,
                         totalCount = Some (length incs) \<rparr>))"

section \<open>Tool executor \<open>search_place\<close> and \<open>googlePlaces.searchPlaces\<close>\<close>

text \<open>The \<open>options\<close> object handed to \<open>searchPlaces\<close>; every property may be absent.\<close>

record search_options =
  options_lat :: "real option"
  options_lng :: "real option"
  options_radius :: "real option"
  options_limit :: "real option"

record circle =
  center_latitude :: real
  center_longitude :: real
  circle_radius :: real

record requestBody =
  textQuery :: string
  languageCode :: string
  maxResultCount :: real
  locationBias :: "circle option"

text \<open>A number that may be absent is truthy when it is present and not zero.\<close>

definition truthy :: "real option \<Rightarrow> bool" where
  "truthy v = (case v of Some x \<Rightarrow> x \<noteq> 0 | None \<Rightarrow> False)"

text \<open>The options that \<open>search_place\<close> builds from \<open>nearLat\<close> and \<open>nearLon\<close>.\<close>

definition search_place_options :: "real option \<Rightarrow> real option \<Rightarrow> search_options" where
  "search_place_options nearLat nearLon =
     (if truthy nearLat \<and> truthy nearLon
      then \<lparr> options_lat = nearLat, options_lng = nearLon,
             options_radius = Some 50000, options_limit = None \<rparr>
      else \<lparr> options_lat = None, options_lng = None,
             options_radius = None, options_limit = None \<rparr>)"

text \<open>
  The request body of \<open>searchPlaces\<close>: \<open>radius\<close> defaults to 50000 and \<open>limit\<close> to 20
  in the destructuring, and the location bias is added when \<open>lat\<close> and \<open>lng\<close> are
  truthy.
\<close>

definition searchPlaces_body :: "string \<Rightarrow> search_options \<Rightarrow> requestBody" where
  "searchPlaces_body q options =
     (let radius = (case options_radius options of Some r \<Rightarrow> r | None \<Rightarrow> 50000);
          limit = (case options_limit options of Some l \<Rightarrow> l | None \<Rightarrow> 20)
      in \<lparr> textQuery = q,
            languageCode = ''en'',
            maxResultCount = min limit 20,
            locationBias =
              (if truthy (options_lat options) \<and> truthy (options_lng options)
               then (case (options_lat options, options_lng options) of
                       (Some a, Some b) \<Rightarrow>
                         Some \<lparr> center_latitude = a, center_longitude = b,
                                 circle_radius = radius \<rparr>
                     | _ \<Rightarrow> None)
               else None) \<rparr>)"

text \<open>
  \<open>post body\<close> is the awaited POST to the text-search endpoint: it rejects, or answers
  with \<open>response.data.places\<close>; \<open>searchPlaces\<close> returns \<open>response.data.places || []\<close>.
\<close>

definition searchPlaces ::
  "(requestBody \<Rightarrow> string + 'p list option) \<Rightarrow> string \<Rightarrow> search_options \<Rightarrow> string + 'p list"
where
  "searchPlaces post q options =
     (case post (searchPlaces_body q options) of
        Inl msg \<Rightarrow> Inl msg
      | Inr None \<Rightarrow> Inr []
      | Inr (Some ps) \<Rightarrow> Inr ps)"

record google_place =
  place_id :: "string option"
  displayName_text :: "string option"
  formattedAddress :: "string option"
  shortFormattedAddress :: "string option"
  location :: "(real \<times> real) option"
  primaryType :: "string option"
  types :: "string list option"

record place =
  id_of :: "string option"
  name_of :: "string option"
  address :: "string option"
  position :: "(real \<times> real) option"
  category :: string

text \<open>\<open>a || b\<close> on strings that may be absent: the empty string is falsy.\<close>

definition or_else :: "string option \<Rightarrow> string option \<Rightarrow> string option" where
  "or_else a b = (case a of Some s \<Rightarrow> (if s = [] then b else Some s) | None \<Rightarrow> b)"

text \<open>\<open>transformPlace\<close> (the constant fields \<open>type\<close> and \<open>source\<close> are left out).\<close>

definition transformPlace :: "google_place \<Rightarrow> place" where
  "transformPlace p =
     \<lparr> id_of = place_id p,
       name_of = or_else (displayName_text p) (formattedAddress p),
       address = or_else (formattedAddress p) (shortFormattedAddress p),
       position = location p,
       category =
         (case or_else
                 (or_else (primaryType p)
                    (case types p of Some (t # _) \<Rightarrow> Some t | _ \<Rightarrow> None))
                 (Some ''place'') of
            Some c \<Rightarrow> c
          | None \<Rightarrow> ''place'') \<rparr>"

datatype search_place_result =
  SearchError string string
| SearchPlaces "place list" string

definition search_place ::
  "(requestBody \<Rightarrow> string + google_place list option) \<Rightarrow> string \<Rightarrow> real option \<Rightarrow> real option
     \<Rightarrow> search_place_result"
where
  "search_place post q nearLat nearLon =
     (case searchPlaces post q (search_place_options nearLat nearLon) of
        Inl msg \<Rightarrow> SearchError msg q
      | Inr results \<Rightarrow>
          if length results = 0 then SearchError ''No places found'' q
          else SearchPlaces (map transformPlace (take 3 results)) q)"

section \<open>The conversation loop \<open>chat\<close>\<close>

text \<open>
  A part of a model turn carries a text, a function call (name and arguments), both or
  neither.  The arguments are of an arbitrary type \<open>'a\<close>.
\<close>

record 'a part =
  part_text :: "string option"
  functionCall :: "(string \<times> 'a) option"

text \<open>
  The \<open>content\<close> of a candidate: missing, present without \<open>parts\<close>, or with its
  parts.  Reading \<open>candidate.content.parts.find\<close> throws a TypeError in the first two
  cases.
\<close>

datatype 'a content = NoContent | NoParts | Parts "'a part list"

datatype 'a candidate = Candidate (content: "'a content")

text \<open>The message of the TypeError thrown on reading property \<open>prop\<close> of \<open>undefined\<close>.\<close>

definition cannot_read :: "string \<Rightarrow> string" where
  "cannot_read prop =
     ''Cannot read properties of undefined (reading '' @ [CHR 0x27] @ prop @ [CHR 0x27] @ '')''"

text \<open>\<open>response.response.candidates\<close>, which may be absent.\<close>

type_synonym 'a response = "'a candidate list option"

text \<open>
  What \<open>chat\<close> sends to the chat session: the user's message, with the user's location
  when one is supplied (the text of the location prefix is not modelled), or the result
  \<open>'r\<close> of a tool under the tool's name.
\<close>

datatype 'r sent_message =
  UserMessage "(real \<times> real) option" string
| FunctionResponse string 'r

text \<open>
  The collaborators.  \<open>sendMessage history sent\<close> is the answer of the chat session,
  started on the caller's history \<open>history\<close> (after the two fixed persona turns), to the
  last message of \<open>sent\<close>, all messages sent so far: the session is stateful, so the
  answer may depend on all of them.  \<open>runTool k name args\<close> is the awaited call, in loop
  pass \<open>k\<close>, of the executor registered under \<open>name\<close>; \<open>callInherited k name args\<close> is
  the call of a property that \<open>toolExecutors\<close> inherits from \<open>Object.prototype\<close>.  Each
  returns (\<open>Inr\<close>) or throws (\<open>Inl\<close> with the error's message).
\<close>

record ('a, 'r, 'h) collaborators =
  sendMessage :: "'h list \<Rightarrow> 'r sent_message list \<Rightarrow> string + 'a response"
  runTool :: "nat \<Rightarrow> string \<Rightarrow> 'a \<Rightarrow> string + 'r"
  callInherited :: "nat \<Rightarrow> string \<Rightarrow> 'a \<Rightarrow> string + 'r"

text \<open>The names of \<open>TRAFFIC_TOOLS\<close>, which are the own keys of \<open>toolExecutors\<close>.\<close>

definition TRAFFIC_TOOLS :: "string list" where
  "TRAFFIC_TOOLS =
     [''search_place'', ''calculate_routes'', ''get_traffic_flow'',
      ''get_departure_times'', ''get_incidents'']"

text \<open>
  \<open>toolExecutors\<close> is an object literal, so \<open>toolExecutors[name]\<close> is also truthy for
  the property names of \<open>Object.prototype\<close>.
\<close>

definition object_prototype_keys :: "string list" where
  "object_prototype_keys =
     [''constructor'', ''toString'', ''toLocaleString'', ''valueOf'', ''hasOwnProperty'',
      ''isPrototypeOf'', ''propertyIsEnumerable'', ''__proto__'', ''__defineGetter__'',
      ''__defineSetter__'', ''__lookupGetter__'', ''__lookupSetter__'']"

datatype executor = Tool | Inherited

definition toolExecutors :: "string \<Rightarrow> executor option" where
  "toolExecutors name =
     (if name \<in> set TRAFFIC_TOOLS then Some Tool
      else if name \<in> set object_prototype_keys then Some Inherited
      else None)"

definition maxIterations :: nat where
  "maxIterations = 5"

text \<open>
  The variables of \<open>chat\<close> that the loop updates, and two ghost fields: the messages
  sent to the session so far and the executor calls made so far.
\<close>

record ('a, 'r) loop_state =
  response :: "'a response"
  responseText :: string
  iterations :: nat
  toolsUsed :: "string list"
  sent :: "'r sent_message list"
  executed :: "(string \<times> 'a) list"

text \<open>
  How control leaves the loop: one of the three \<open>break\<close>s (no candidate, unknown tool,
  final text), the loop condition turning false, or a thrown error, which the \<open>catch\<close>
  of \<open>chat\<close> receives.
\<close>

datatype loop_exit = NoCandidate | UnknownTool | FinalText | BoundReached

datatype 's completion = Exited loop_exit 's | Thrown string 's

definition find_functionCall :: "'a part list \<Rightarrow> (string \<times> 'a) option" where
  "find_functionCall ps =
     (case List.find (\<lambda>p. functionCall p \<noteq> None) ps of
        Some p \<Rightarrow> functionCall p
      | None \<Rightarrow> None)"

text \<open>The texts of the parts whose text is truthy, joined.\<close>

definition join_text :: "'a part list \<Rightarrow> string" where
  "join_text ps =
     concat (map (\<lambda>p. case part_text p of Some t \<Rightarrow> t | None \<Rightarrow> [])
                 (filter (\<lambda>p. case part_text p of Some t \<Rightarrow> t \<noteq> [] | None \<Rightarrow> False) ps))"

definition call_executor ::
  "('a, 'r, 'h) collaborators \<Rightarrow> executor \<Rightarrow> nat \<Rightarrow> string \<Rightarrow> 'a \<Rightarrow> string + 'r"
where
  "call_executor env ex k name a =
     (case ex of Tool \<Rightarrow> runTool env k name a | Inherited \<Rightarrow> callInherited env k name a)"

text \<open>
  One pass through the body of the \<open>while\<close> loop: it ends with the next state, to be
  tested against the loop condition again, or leaves the loop.
\<close>

datatype 's pass = Continue 's | Leave "'s completion"

definition loop_body ::
  "('a, 'r, 'h) collaborators \<Rightarrow> 'h list \<Rightarrow> ('a, 'r) loop_state \<Rightarrow> ('a, 'r) loop_state pass"
where
  "loop_body env history s =
     (let s1 = s\<lparr>iterations := iterations s + 1\<rparr> in
      case (case response s1 of Some (c # _) \<Rightarrow> Some c | _ \<Rightarrow> None) of
        None \<Rightarrow> Leave (Exited NoCandidate s1)
      | Some cand \<Rightarrow>
         (case content cand of
            NoContent \<Rightarrow> Leave (Thrown (cannot_read ''parts'') s1)
          | NoParts \<Rightarrow> Leave (Thrown (cannot_read ''find'') s1)
          | Parts ps \<Rightarrow>
             (case find_functionCall ps of
                Some (name, a) \<Rightarrow>
                  (let s2 = s1\<lparr>toolsUsed := toolsUsed s1 @ [name]\<rparr> in
                   case toolExecutors name of
                     Some ex \<Rightarrow>
                       (let s3 = s2\<lparr>executed := executed s2 @ [(name, a)]\<rparr> in
                        case call_executor env ex (iterations s3) name a of
                          Inl err \<Rightarrow> Leave (Thrown err s3)
                        | Inr result \<Rightarrow>
                           (let s4 = s3\<lparr>sent := sent s3 @ [FunctionResponse name result]\<rparr> in
                            case sendMessage env history (sent s4) of
                              Inl err \<Rightarrow> Leave (Thrown err s4)
                            | Inr r \<Rightarrow> Continue (s4\<lparr>response := r\<rparr>)))
                   | None \<Rightarrow> Leave (Exited UnknownTool s2))
              | None \<Rightarrow> Leave (Exited FinalText (s1\<lparr>responseText := join_text ps\<rparr>)))))"

function chat_loop ::
  "('a, 'r, 'h) collaborators \<Rightarrow> 'h list \<Rightarrow> ('a, 'r) loop_state \<Rightarrow> ('a, 'r) loop_state completion"
where
  "chat_loop env history s =
     (if iterations s < maxIterations then
        (case loop_body env history s of
           Continue s' \<Rightarrow> chat_loop env history s'
         | Leave c \<Rightarrow> c)
      else Exited BoundReached s)"
  by pat_completeness auto
termination
  by (relation "measure (\<lambda>(env, history, s). maxIterations - iterations s)")
     (auto simp: loop_body_def Let_def split: option.splits list.splits sum.splits prod.splits content.splits)

declare chat_loop.simps [simp del]

text \<open>
  The friendly message of the \<open>catch\<close> of \<open>chat\<close>; its last four bytes are the UTF-8
  encoding of the emoji U+1F914.
\<close>

definition friendly_message :: string where
  "friendly_message =
     ''Oops! I had trouble processing that. Could you try rephrasing your question? ''
       @ [CHR 0xF0, CHR 0x9F, CHR 0xA4, CHR 0x94]"

text \<open>
  What \<open>chat\<close> returns: the object of the normal return has no \<open>error\<close> property and
  the object of the \<open>catch\<close> has no \<open>toolsUsed\<close> property.
\<close>

record outcome =
  success :: bool
  message :: string
  toolsUsed_out :: "string list option"
  error :: "string option"

text \<open>
  \<open>chat\<close> up to the end of the loop: the first \<open>sendMessage\<close> and the loop.  The
  caller's history is \<open>history\<close>, its location \<open>loc\<close>.  An error thrown while the
  session is set up is handled by the same \<open>catch\<close> as a rejection of the first
  \<open>sendMessage\<close> and is not distinguished from it.
\<close>

definition chat_run ::
  "('a, 'r, 'h) collaborators \<Rightarrow> string \<Rightarrow> (real \<times> real) option \<Rightarrow> 'h list
     \<Rightarrow> ('a, 'r) loop_state completion"
where
  "chat_run env msg loc history =
     (let s0 = \<lparr> response = None, responseText = [], iterations = 0, toolsUsed = [],
                 sent = [UserMessage loc msg], executed = [] \<rparr>
      in case sendMessage env history (sent s0) of
           Inl err \<Rightarrow> Thrown err s0
         | Inr r \<Rightarrow> chat_loop env history (s0\<lparr>response := r\<rparr>))"

text \<open>The \<open>return\<close> after the loop and the \<open>return\<close> of the \<open>catch\<close>.\<close>

definition assemble :: "('a, 'r) loop_state completion \<Rightarrow> outcome" where
  "assemble c =
     (case c of
        Exited _ s \<Rightarrow>
          \<lparr> success = True, message = responseText s,
            toolsUsed_out = Some (toolsUsed s), error = None \<rparr>
      | Thrown err _ \<Rightarrow>
          \<lparr> success = False, message = friendly_message,
            toolsUsed_out = None, error = Some err \<rparr>)"

definition chat ::
  "('a, 'r, 'h) collaborators \<Rightarrow> string \<Rightarrow> (real \<times> real) option \<Rightarrow> 'h list \<Rightarrow> outcome"
where
  "chat env msg loc history = assemble (chat_run env msg loc history)"

section \<open>The route \<open>POST /api/chat\<close>\<close>

text \<open>
  The handler of the route validates the body, keeps the last 10 turns
  of the history, awaits \<open>chat\<close> and sends its result unchanged with \<open>res.json\<close>.
  \<open>chat\<close> catches every error itself, so the handler's own \<open>catch\<close> (status 500) is
  not reached from it and is not modelled.

  The body of the request: \<open>body_message\<close> is \<open>None\<close> when \<open>message\<close> is absent or
  not a string.  \<open>conversationHistory\<close> is absent, an array, or another truthy value
  (falsy values that are not arrays are not modelled).
\<close>

datatype 'h history_field = Absent | Array "'h list" | NotAnArray

record 'h chat_body =
  body_message :: "string option"
  body_userLocation :: "(real \<times> real) option"
  body_conversationHistory :: "'h history_field"

text \<open>The JSON answers of the route: a validation error or the result of \<open>chat\<close>.\<close>

datatype http_answer =
  BadRequest string
| Ok outcome

text \<open>
  The message is a JavaScript string, held here as its UTF-8 bytes.  \<open>trim\<close> removes
  white space and line terminators: the ASCII ones (\<open>is_space\<close>), U+00A0 (two bytes),
  and U+1680, U+2000 to U+200A, U+2028, U+2029, U+202F, U+205F, U+3000 and U+FEFF (three
  bytes each, \<open>white3\<close>).  \<open>all_space\<close> holds of a string that \<open>trim\<close> empties.
\<close>

definition is_space :: "char \<Rightarrow> bool" where
  "is_space c = (c \<in> set [CHR '' '', CHR 0x09, CHR 0x0A, CHR 0x0B, CHR 0x0C, CHR 0x0D])"

definition white3 :: "char \<Rightarrow> char \<Rightarrow> char \<Rightarrow> bool" where
  "white3 c1 c2 c3 =
     ((c1, c2, c3) \<in> set
        [(CHR 0xE1, CHR 0x9A, CHR 0x80), (CHR 0xE2, CHR 0x80, CHR 0xA8),
         (CHR 0xE2, CHR 0x80, CHR 0xA9), (CHR 0xE2, CHR 0x80, CHR 0xAF),
         (CHR 0xE2, CHR 0x81, CHR 0x9F), (CHR 0xE3, CHR 0x80, CHR 0x80),
         (CHR 0xEF, CHR 0xBB, CHR 0xBF)]
      \<or> (c1 = CHR 0xE2 \<and> c2 = CHR 0x80 \<and> (0x80::nat) \<le> of_char c3 \<and> of_char c3 \<le> (0x8A::nat)))"

fun all_space :: "string \<Rightarrow> bool" where
  "all_space [] = True"
| "all_space (c # cs) =
     (if is_space c then all_space cs
      else if c = CHR 0xC2 then (case cs of c2 # r \<Rightarrow> c2 = CHR 0xA0 \<and> all_space r | [] \<Rightarrow> False)
      else (case cs of c2 # c3 # r \<Rightarrow> white3 c c2 c3 \<and> all_space r | _ \<Rightarrow> False))"

text \<open>
  \<open>message.length\<close> counts UTF-16 code units: one for every code point, and one more
  for a code point of four UTF-8 bytes.
\<close>

definition utf16_length :: "string \<Rightarrow> nat" where
  "utf16_length s =
     length (filter (\<lambda>c. \<not> ((0x80::nat) \<le> of_char c \<and> of_char c < (0xC0::nat))) s)
     + length (filter (\<lambda>c. (0xF0::nat) \<le> of_char c) s)"

definition post_chat :: "('a, 'r, 'h) collaborators \<Rightarrow> 'h chat_body \<Rightarrow> http_answer" where
  "post_chat env body =
     (case body_message body of
        None \<Rightarrow> BadRequest ''Message is required''
      | Some msg \<Rightarrow>
          if msg = [] \<or> all_space msg then BadRequest ''Message is required''
          else if 1000 < utf16_length msg then BadRequest ''Message too long (max 1000 characters)''
          else (case body_conversationHistory body of
                  NotAnArray \<Rightarrow> BadRequest ''conversationHistory must be an array''
                | Absent \<Rightarrow> Ok (chat env msg (body_userLocation body) [])
                | Array h \<Rightarrow>
                    Ok (chat env msg (body_userLocation body) (drop (length h - 10) h))))"

section \<open>Auxiliary notions for the properties\<close>

text \<open>
  A routing answer from which \<open>departure_pass\<close> gets no entry: the call rejects, the
  answer has no first route, or the first route has no summary.
\<close>

definition no_route :: "string + route list option \<Rightarrow> bool" where
  "no_route answer =
     (case answer of
        Inl _ \<Rightarrow> True
      | Inr None \<Rightarrow> True
      | Inr (Some []) \<Rightarrow> True
      | Inr (Some (Route None # _)) \<Rightarrow> True
      | Inr (Some (Route (Some _) # _)) \<Rightarrow> False)"

text \<open>The state in which control left the loop.\<close>

definition final_state :: "'s completion \<Rightarrow> 's" where
  "final_state c = (case c of Exited _ s \<Rightarrow> s | Thrown _ s \<Rightarrow> s)"

text \<open>
  A model turn whose first candidate requests one of the five registered tools.
\<close>

definition requests_tool :: "'a response \<Rightarrow> bool" where
  "requests_tool resp =
     (case resp of
        Some (Candidate (Parts ps) # _) \<Rightarrow>
          (case find_functionCall ps of
             Some (name, _) \<Rightarrow> name \<in> set TRAFFIC_TOOLS
           | None \<Rightarrow> False)
      | _ \<Rightarrow> False)"

text \<open>
  Collaborators for the concrete runs below: a model turn that requests the tool \<open>name\<close>,
  and a model that gives the same answer to every message, with tools that return a unit
  result and inherited properties that cannot be called.
\<close>

definition tool_turn :: "string \<Rightarrow> unit response" where
  "tool_turn name =
     Some [Candidate (Parts [\<lparr>part_text = None, functionCall = Some (name, ())\<rparr>])]"

definition fixed_model :: "string + unit response \<Rightarrow> (unit, unit, unit) collaborators" where
  "fixed_model answer =
     \<lparr> sendMessage = (\<lambda>_ _. answer),
       runTool = (\<lambda>_ _ _. Inr ()),
       callInherited = (\<lambda>_ _ _. Inl ''executor is not a function'') \<rparr>"

section \<open>Properties of double-precision rounding\<close>

lemma pow2_powr: "pow2 e = 2 powr (of_int e)"
  by (simp add: pow2_def powr_int)

lemma pow2_pos [simp]: "0 < pow2 e"
  by (simp add: pow2_powr)

lemma pow2_add: "pow2 (a + b) = pow2 a * pow2 b"
  by (simp add: pow2_powr powr_add)

lemma pow2_mono: "a \<le> b \<Longrightarrow> pow2 a \<le> pow2 b"
  by (simp add: pow2_powr)

lemma pow2_nat: "0 \<le> e \<Longrightarrow> pow2 e = 2 ^ nat e"
  by (simp add: pow2_def)

lemma pow2_of_int: "0 \<le> e \<Longrightarrow> pow2 e = of_int (2 ^ nat e)"
  by (simp add: pow2_def)

lemma binade_eq:
  assumes lo: "pow2 e \<le> \<bar>x\<bar>" and hi: "\<bar>x\<bar> < pow2 (e + 1)" and e: "- 1074 \<le> e"
  shows "binade x = e"
proof -
  have p: "(2::real) ^ 1074 = pow2 1074"
    by (simp only: pow2_def) simp
  let ?y = "\<bar>x\<bar> * pow2 1074"
  have "pow2 e * pow2 1074 \<le> ?y"
    using lo by (intro mult_right_mono) (simp_all add: less_imp_le)
  then have "pow2 (e + 1074) \<le> ?y"
    by (simp only: pow2_add)
  then have "of_int (2 ^ nat (e + 1074)) \<le> ?y"
    using e pow2_of_int [of "e + 1074"] by simp
  then have 1: "2 ^ nat (e + 1074) \<le> \<lfloor>?y\<rfloor>"
    by (rule iffD2 [OF le_floor_iff])
  have "?y < pow2 (e + 1) * pow2 1074"
    using hi by (intro mult_strict_right_mono) simp_all
  then have "?y < pow2 (e + 1075)"
    by (simp only: pow2_add [symmetric]) (simp add: add.commute)
  then have "?y < of_int (2 ^ nat (e + 1075))"
    using e pow2_of_int [of "e + 1075"] by simp
  then have 2: "\<lfloor>?y\<rfloor> < 2 ^ nat (e + 1075)"
    by (rule iffD2 [OF floor_less_iff])
  have le: "bitlen \<lfloor>?y\<rfloor> \<le> e + 1075"
    using 2 e by (simp add: bitlen_le_iff_power)
  have n: "nat (e + 1075) - Suc 0 = nat (e + 1074)"
    using e by simp
  have ge: "e + 1075 \<le> bitlen \<lfloor>?y\<rfloor>"
    using 1 by (simp add: bitlen_ge_iff_power n)
  have "binade x = bitlen \<lfloor>?y\<rfloor> - 1075"
    by (simp only: binade_def p)
  with le ge show ?thesis
    by simp
qed

lemma rne_of_int [simp]: "rne (of_int n) = n"
  by (simp add: rne_def)

lemma rne_near: "\<bar>x - of_int n\<bar> < 1 / 2 \<Longrightarrow> rne x = n"
proof -
  assume a: "\<bar>x - of_int n\<bar> < 1 / 2"
  have "\<lfloor>x\<rfloor> = n \<or> \<lfloor>x\<rfloor> = n - 1"
    using a by (auto simp: floor_eq_iff)
  then show ?thesis
  proof
    assume f: "\<lfloor>x\<rfloor> = n"
    then have "x - of_int n < 1 / 2" using a by linarith
    then show ?thesis using f by (simp add: rne_def)
  next
    assume f: "\<lfloor>x\<rfloor> = n - 1"
    have "1 / 2 < x - (of_int n - 1)" using a by linarith
    then have "1 / 2 < x - of_int (n - 1)" by simp
    then show ?thesis using f by (simp add: rne_def Let_def)
  qed
qed

lemma rne_bounds: "\<lfloor>x\<rfloor> \<le> rne x \<and> rne x \<le> \<lfloor>x\<rfloor> + 1"
  by (simp add: rne_def Let_def)

lemma rne_mono: "x \<le> y \<Longrightarrow> rne x \<le> rne y"
proof -
  assume xy: "x \<le> y"
  then have f: "\<lfloor>x\<rfloor> \<le> \<lfloor>y\<rfloor>" by (rule floor_mono)
  show ?thesis
  proof (cases "\<lfloor>x\<rfloor> = \<lfloor>y\<rfloor>")
    case True
    then have "x - of_int \<lfloor>x\<rfloor> \<le> y - of_int \<lfloor>y\<rfloor>" using xy by simp
    then show ?thesis using True by (auto simp: rne_def Let_def)
  next
    case False
    with f have "\<lfloor>x\<rfloor> + 1 \<le> \<lfloor>y\<rfloor>" by simp
    with rne_bounds [of x] rne_bounds [of y] show ?thesis by linarith
  qed
qed

lemma pow2_nonneg [simp]: "0 \<le> pow2 e"
  using pow2_pos [of e] by linarith

lemma pow2_less_cancel: "pow2 a < pow2 b \<Longrightarrow> a < b"
  by (simp add: pow2_powr)

lemma pow2_minus: "pow2 (- a) = 1 / pow2 a"
  by (simp add: pow2_powr powr_minus_divide)

lemma pow2_diff: "pow2 (a - b) = pow2 a / pow2 b"
  by (simp add: pow2_powr powr_diff)

lemma fl_binade:
  assumes "pow2 e \<le> \<bar>x\<bar>" and "\<bar>x\<bar> < pow2 (e + 1)" and "- 1022 \<le> e"
  shows "fl x = of_int (rne (x / pow2 (e - 52))) * pow2 (e - 52)"
proof -
  have "binade x = e"
    using assms by (intro binade_eq) simp_all
  moreover have "max (e - 52) (- 1074) = e - 52"
    using assms(3) by simp
  ultimately show ?thesis
    by (simp add: fl_def Let_def)
qed

lemma binade_exists:
  assumes "0 < x"
  shows "\<exists>e. pow2 e \<le> x \<and> x < pow2 (e + 1)"
proof -
  let ?e = "\<lfloor>log 2 x\<rfloor>"
  have "of_int ?e \<le> log 2 x" by simp
  then have "2 powr (of_int ?e) \<le> 2 powr (log 2 x)"
    by (simp only: powr_le_cancel_iff) 
  then have 1: "pow2 ?e \<le> x"
    using assms by (simp add: pow2_powr)
  have "log 2 x < of_int (?e + 1)" by linarith
  then have "2 powr (log 2 x) < 2 powr (of_int (?e + 1))"
    by (simp only: powr_less_cancel_iff)
  then have 2: "x < pow2 (?e + 1)"
    using assms by (simp add: pow2_powr)
  from 1 2 show ?thesis by blast
qed

lemma fl_mono:
  assumes lo: "pow2 (- 1022) \<le> x" and xy: "x \<le> y"
  shows "fl x \<le> fl y"
proof -
  have x0: "0 < x"
    using lo pow2_pos [of "- 1022"] by linarith
  then have y0: "0 < y" using xy by linarith
  from binade_exists [OF x0] obtain ex where ex: "pow2 ex \<le> x" "x < pow2 (ex + 1)" by blast
  from binade_exists [OF y0] obtain ey where ey: "pow2 ey \<le> y" "y < pow2 (ey + 1)" by blast
  have "pow2 (- 1022) < pow2 (ex + 1)" using lo ex(2) by linarith
  then have ex_lo: "- 1022 \<le> ex" using pow2_less_cancel by fastforce
  have "pow2 ex < pow2 (ey + 1)" using ex(1) xy ey(2) by linarith
  then have le: "ex \<le> ey" using pow2_less_cancel by fastforce
  then have ey_lo: "- 1022 \<le> ey" using ex_lo by simp
  have fx: "fl x = of_int (rne (x / pow2 (ex - 52))) * pow2 (ex - 52)"
    using ex ex_lo x0 by (intro fl_binade) simp_all
  have fy: "fl y = of_int (rne (y / pow2 (ey - 52))) * pow2 (ey - 52)"
    using ey ey_lo y0 by (intro fl_binade) simp_all
  show ?thesis
  proof (cases "ex = ey")
    case True
    have "x / pow2 (ey - 52) \<le> y / pow2 (ey - 52)"
      using xy by (simp add: divide_right_mono)
    then have "rne (x / pow2 (ey - 52)) \<le> rne (y / pow2 (ey - 52))"
      by (rule rne_mono)
    then show ?thesis
      unfolding fx fy True by (simp add: mult_right_mono)
  next
    case False
    with le have lt: "ex + 1 \<le> ey" by simp
    have "x / pow2 (ex - 52) \<le> pow2 (ex + 1) / pow2 (ex - 52)"
      using ex(2) by (simp add: divide_right_mono)
    also have "\<dots> = pow2 53"
      by (simp add: pow2_diff [symmetric])
    also have "\<dots> = of_int (2 ^ 53)"
      by (simp only: pow2_of_int) simp
    finally have "rne (x / pow2 (ex - 52)) \<le> rne (of_int (2 ^ 53))"
      by (rule rne_mono)
    then have "of_int (rne (x / pow2 (ex - 52))) \<le> pow2 53"
      by (simp only: rne_of_int pow2_of_int) simp
    then have "fl x \<le> pow2 53 * pow2 (ex - 52)"
      unfolding fx by (simp add: mult_right_mono)
    also have "\<dots> = pow2 (ex + 1)"
      by (simp add: pow2_add [symmetric] add.commute)
    also have "\<dots> \<le> pow2 ey"
      using lt by (rule pow2_mono)
    finally have 1: "fl x \<le> pow2 ey" .
    have "pow2 52 = pow2 ey / pow2 (ey - 52)"
      by (simp add: pow2_diff [symmetric])
    also have "\<dots> \<le> y / pow2 (ey - 52)"
      using ey(1) by (simp add: divide_right_mono)
    finally have "of_int (2 ^ 52) \<le> y / pow2 (ey - 52)"
      by (simp only: pow2_of_int) simp
    then have "rne (of_int (2 ^ 52)) \<le> rne (y / pow2 (ey - 52))"
      by (rule rne_mono)
    then have "pow2 52 \<le> of_int (rne (y / pow2 (ey - 52)))"
      by (simp only: rne_of_int pow2_of_int) simp
    then have "pow2 52 * pow2 (ey - 52) \<le> fl y"
      unfolding fy by (simp add: mult_right_mono)
    then have "pow2 ey \<le> fl y"
      by (simp add: pow2_add [symmetric])
    with 1 show ?thesis by linarith
  qed
qed

lemma fl_exact:
  assumes "pow2 e \<le> \<bar>x\<bar>" and "\<bar>x\<bar> < pow2 (e + 1)" and "- 1022 \<le> e"
    and "x / pow2 (e - 52) = of_int n"
  shows "fl x = x"
proof -
  have "fl x = of_int n * pow2 (e - 52)"
    using fl_binade [OF assms(1-3)] assms(4) by simp
  also have "\<dots> = x"
    using assms(4) pow2_pos [of "e - 52"] by (simp add: field_simps)
  finally show ?thesis .
qed

lemma fl_sixteenth:
  assumes "0 < m" and "m < 2 ^ 53"
  shows "fl (of_int m / 16) = of_int m / 16"
proof -
  let ?x = "real_of_int m / 16"
  have x0: "0 < ?x" using assms(1) by simp
  from binade_exists [OF x0] obtain e where e: "pow2 e \<le> ?x" "?x < pow2 (e + 1)" by blast
  have p4: "pow2 (- 4) = 1 / 16" by (simp add: pow2_def)
  have p49: "pow2 49 = 2 ^ 53 / 16" by (simp add: pow2_def)
  have "1 \<le> real_of_int m" using assms(1) by simp
  then have "pow2 (- 4) \<le> ?x" unfolding p4 by simp
  then have "pow2 (- 4) < pow2 (e + 1)" using e(2) by linarith
  then have lo: "- 4 \<le> e" using pow2_less_cancel by fastforce
  have "real_of_int m < 2 ^ 53" using assms(2) by (metis of_int_less_numeral_power_cancel_iff)
  then have "?x < pow2 49" unfolding p49 by simp
  then have "pow2 e < pow2 49" using e(1) by linarith
  then have hi: "e < 49" by (rule pow2_less_cancel)
  have "?x / pow2 (e - 52) = real_of_int m * (pow2 (- 4) * pow2 (52 - e))"
    by (simp add: p4 pow2_diff field_simps)
  also have "pow2 (- 4) * pow2 (52 - e) = pow2 (48 - e)"
    by (simp add: pow2_add [symmetric])
  also have "pow2 (48 - e) = of_int (2 ^ nat (48 - e))"
    using hi by (intro pow2_of_int) simp
  finally have eq: "?x / pow2 (e - 52) = of_int (m * 2 ^ nat (48 - e))"
    by simp
  have 1: "pow2 e \<le> \<bar>?x\<bar>" using e(1) x0 by simp
  have 2: "\<bar>?x\<bar> < pow2 (e + 1)" using e(2) x0 by simp
  have 3: "- 1022 \<le> e" using lo by simp
  show ?thesis
    by (rule fl_exact [OF 1 2 3 eq])
qed

lemma fl_int_plus:
  assumes a: "pow2 e \<le> of_int a" "of_int a < pow2 (e + 1)" and e: "0 \<le> e" "e \<le> 52"
    and d: "0 \<le> d" "d < pow2 (e - 53)"
  shows "fl (of_int a + d) = of_int a"
proof -
  let ?x = "real_of_int a + d"
  have "real_of_int a < of_int (2 ^ nat (e + 1))"
    using a(2) e by (simp add: pow2_nat)
  then have "a < 2 ^ nat (e + 1)" by (simp only: of_int_less_iff)
  then have "real_of_int a + 1 \<le> of_int (2 ^ nat (e + 1))"
    by (metis of_int_le_iff zless_imp_add1_zle of_int_add of_int_1)
  then have a1: "real_of_int a + 1 \<le> pow2 (e + 1)"
    using e by (simp add: pow2_nat)
  have "pow2 (e - 53) \<le> pow2 0" using e by (intro pow2_mono) simp
  then have d1: "d < 1" using d(2) by (simp add: pow2_def)
  have a0: "0 < real_of_int a" using a(1) pow2_pos [of e] by linarith
  have lo: "pow2 e \<le> \<bar>?x\<bar>" using a(1) d(1) a0 by simp
  have hi: "\<bar>?x\<bar> < pow2 (e + 1)" using a1 d1 d(1) a0 by simp
  have "real_of_int a / pow2 (e - 52) = real_of_int a * pow2 (52 - e)"
    by (simp add: pow2_diff)
  also have "pow2 (52 - e) = of_int (2 ^ nat (52 - e))"
    using e by (intro pow2_of_int) simp
  finally have n: "real_of_int a / pow2 (e - 52) = of_int (a * 2 ^ nat (52 - e))"
    by simp
  have "d / pow2 (e - 52) < pow2 (e - 53) / pow2 (e - 52)"
    using d(2) by (simp add: divide_strict_right_mono)
  also have "\<dots> = 1 / 2"
    by (simp add: pow2_diff [symmetric]) (simp add: pow2_def)
  finally have dd: "d / pow2 (e - 52) < 1 / 2" .
  have dd0: "0 \<le> d / pow2 (e - 52)" using d(1) by simp
  have "?x / pow2 (e - 52) = of_int (a * 2 ^ nat (52 - e)) + d / pow2 (e - 52)"
    using n by (simp add: add_divide_distrib)
  then have "?x / pow2 (e - 52) - of_int (a * 2 ^ nat (52 - e)) = d / pow2 (e - 52)"
    by linarith
  then have "\<bar>?x / pow2 (e - 52) - of_int (a * 2 ^ nat (52 - e))\<bar> < 1 / 2"
    using dd dd0 by (simp only: abs_of_nonneg)
  then have "rne (?x / pow2 (e - 52)) = a * 2 ^ nat (52 - e)"
    by (rule rne_near)
  then have "fl ?x = of_int (a * 2 ^ nat (52 - e)) * pow2 (e - 52)"
    using fl_binade [OF lo hi] e by simp
  also have "\<dots> = real_of_int a"
    using n pow2_pos [of "e - 52"] by (simp add: field_simps)
  finally show ?thesis .
qed

text \<open>The doubles of the four literals.\<close>

lemma fl_three_tenths: "fl (3 / 10) = 5404319552844595 / 2 ^ 54"
  using fl_binade [of "- 2" "3 / 10"]
  by (simp add: pow2_def rne_def Let_def)

lemma fl_five_tenths: "fl (1 / 2) = 1 / 2"
  using fl_binade [of "- 1" "1 / 2"]
  by (simp add: pow2_def rne_def Let_def)

lemma fl_seven_tenths: "fl (7 / 10) = 6305039478318694 / 2 ^ 53"
  using fl_binade [of "- 1" "7 / 10"]
  by (simp add: pow2_def rne_def Let_def)

lemma fl_nine_tenths: "fl (9 / 10) = 8106479329266893 / 2 ^ 53"
  using fl_binade [of "- 1" "9 / 10"]
  by (simp add: pow2_def rne_def Let_def)

lemma pow2_floor: "pow2 (- 1022) \<le> 1 / 16"
proof -
  have "pow2 (- 1022) \<le> pow2 (- 4)" by (intro pow2_mono) simp
  then show ?thesis by (simp add: pow2_def)
qed

lemma fl_above:
  assumes "0 \<le> a" and "a < 2 ^ 31" and "of_int a + 1 / 16 \<le> x"
  shows "of_int a < fl x"
proof -
  let ?m = "16 * a + 1"
  have y: "real_of_int ?m / 16 = of_int a + 1 / 16" by simp
  have "0 < ?m" "?m < 2 ^ 53" using assms(1,2) by simp_all
  then have "fl (real_of_int ?m / 16) = real_of_int ?m / 16" by (rule fl_sixteenth)
  then have 1: "fl (of_int a + 1 / 16) = of_int a + 1 / 16" by (simp only: y)
  have "0 \<le> real_of_int a" using assms(1) by simp
  then have "pow2 (- 1022) \<le> of_int a + 1 / 16" using pow2_floor by linarith
  from fl_mono [OF this assms(3)] 1 show ?thesis by linarith
qed

lemma fl_at_most:
  assumes "1 \<le> a" and "a < 2 ^ 31" and "x \<le> of_int a" and "1 / 16 \<le> x"
  shows "fl x \<le> of_int a"
proof -
  let ?m = "16 * a"
  have y: "real_of_int ?m / 16 = of_int a" by simp
  have "0 < ?m" "?m < 2 ^ 53" using assms(1,2) by simp_all
  then have "fl (real_of_int ?m / 16) = real_of_int ?m / 16" by (rule fl_sixteenth)
  then have 1: "fl (of_int a) = of_int a" by (simp only: y)
  have "pow2 (- 1022) \<le> x" using pow2_floor assms(4) by linarith
  from fl_mono [OF this assms(3)] 1 show ?thesis by linarith
qed

lemma fl_below:
  assumes "1 \<le> a" and "a < 2 ^ 31" and "x \<le> of_int a - 1 / 16" and "1 / 16 \<le> x"
  shows "fl x < of_int a"
proof -
  let ?m = "16 * a - 1"
  have y: "real_of_int ?m / 16 = of_int a - 1 / 16" by simp
  have "0 < ?m" "?m < 2 ^ 53" using assms(1,2) by simp_all
  then have "fl (real_of_int ?m / 16) = real_of_int ?m / 16" by (rule fl_sixteenth)
  then have 1: "fl (of_int a - 1 / 16) = of_int a - 1 / 16" by (simp only: y)
  have "pow2 (- 1022) \<le> x" using pow2_floor assms(4) by linarith
  from fl_mono [OF this assms(3)] 1 show ?thesis by linarith
qed

lemma product_error:
  assumes "0 < b" and "b < 2 ^ 31" and "\<bar>ch - c\<bar> \<le> 1 / 2 ^ 54"
  shows "\<bar>real_of_int b * ch - real_of_int b * c\<bar> \<le> 1 / 80"
proof -
  have b: "0 \<le> real_of_int b" "real_of_int b \<le> 2 ^ 31"
    using assms(1,2) by simp_all
  have "\<bar>real_of_int b * ch - real_of_int b * c\<bar> = real_of_int b * \<bar>ch - c\<bar>"
    using b(1) by (simp add: abs_mult right_diff_distrib [symmetric])
  also have "\<dots> \<le> 2 ^ 31 * (1 / 2 ^ 54)"
    using b assms(3) by (intro mult_mono) simp_all
  also have "\<dots> \<le> 1 / 80" by simp
  finally show ?thesis .
qed

lemma threshold_off:
  assumes a: "0 \<le> a" "a < 2 ^ 31" and b: "0 < b" "b < 2 ^ 31"
    and ch: "\<bar>ch - of_int k / 10\<bar> \<le> 1 / 2 ^ 54" and k: "3 \<le> k"
    and ne: "10 * a \<noteq> k * b"
  shows "(of_int a < fl (of_int b * ch)) = (10 * a < k * b)"
proof -
  define x where "x = real_of_int b * ch"
  define t where "t = real_of_int (k * b) / 10"
  have "real_of_int b * (of_int k / 10) = t" by (simp add: t_def)
  with product_error [OF b ch] have err: "\<bar>x - t\<bar> \<le> 1 / 80"
    by (simp only: x_def)
  show ?thesis
  proof (cases "10 * a < k * b")
    case True
    then have "10 * a + 1 \<le> k * b" by simp
    then have "real_of_int (10 * a + 1) \<le> real_of_int (k * b)" by (simp only: of_int_le_iff)
    then have "10 * real_of_int a + 1 \<le> real_of_int (k * b)" by simp
    then have "real_of_int a + 1 / 10 \<le> t" unfolding t_def by linarith
    with err have "real_of_int a + 1 / 16 \<le> x" by linarith
    from fl_above [OF a this] True show ?thesis by (simp add: x_def)
  next
    case False
    with ne have "k * b + 1 \<le> 10 * a" by simp
    then have "real_of_int (k * b + 1) \<le> real_of_int (10 * a)" by (simp only: of_int_le_iff)
    then have le: "real_of_int (k * b) + 1 \<le> 10 * real_of_int a" by simp
    then have "t \<le> real_of_int a - 1 / 10" unfolding t_def by linarith
    with err have 1: "x \<le> real_of_int a - 1 / 16" by linarith
    have "3 * 1 \<le> k * b" using k b(1) by (intro mult_mono) simp_all
    then have "real_of_int 3 \<le> real_of_int (k * b)" by (simp only: of_int_le_iff)
    then have kb3: "3 \<le> real_of_int (k * b)" by simp
    then have "3 / 10 \<le> t" unfolding t_def by linarith
    with err have 2: "1 / 16 \<le> x" by linarith
    have "1 \<le> 10 * real_of_int a" using le kb3 by linarith
    then have "0 < real_of_int a" by linarith
    then have "1 \<le> a" by simp
    from fl_below [OF this a(2) 1 2] False show ?thesis by (simp add: x_def)
  qed
qed

lemma threshold_tie_below:
  assumes a: "0 \<le> a" "a < 2 ^ 31" and b: "0 < b"
    and ch: "ch \<le> of_int k / 10" "1 / 4 \<le> ch" and k: "0 < k"
    and eq: "10 * a = k * b"
  shows "\<not> of_int a < fl (of_int b * ch)"
proof -
  define x where "x = real_of_int b * ch"
  have "real_of_int (10 * a) = real_of_int (k * b)" using eq by simp
  then have "10 * real_of_int a = real_of_int b * real_of_int k" by (simp add: mult.commute)
  then have e: "real_of_int b * (real_of_int k / 10) = real_of_int a" by simp
  have b1: "1 \<le> real_of_int b" using b by simp
  have "x \<le> real_of_int b * (of_int k / 10)"
    unfolding x_def using ch(1) b1 by (intro mult_left_mono) simp_all
  then have 1: "x \<le> real_of_int a" using e by simp
  have "1 * (1 / 4) \<le> x" unfolding x_def using b1 ch(2) by (intro mult_mono) simp_all
  then have 2: "1 / 16 \<le> x" by simp
  have "0 < k * b" using k b by simp
  then have "1 \<le> a" using eq by linarith
  from fl_at_most [OF this a(2) 1 2] show ?thesis by (simp add: x_def)
qed

lemma threshold_tie_nine:
  assumes a: "0 \<le> a" "a < 2 ^ 31" and b: "0 < b" and eq: "10 * a = 9 * b"
  shows "\<not> of_int a < fl (of_int b * fl (9 / 10))"
proof -
  have "real_of_int (10 * a) = real_of_int (9 * b)" using eq by simp
  then have rb: "real_of_int b = 10 * real_of_int a / 9" by simp
  have a1: "1 \<le> a" using eq b by linarith
  then have a0: "0 < real_of_int a" by simp
  from binade_exists [OF a0] obtain e where
    e: "pow2 e \<le> of_int a" "real_of_int a < pow2 (e + 1)" by blast
  have "pow2 0 \<le> real_of_int a" using a1 by (simp add: pow2_def)
  then have "pow2 0 < pow2 (e + 1)" using e(2) by linarith
  then have e0: "0 \<le> e" using pow2_less_cancel by fastforce
  have "real_of_int a < 2 ^ 31" using a(2) by (metis of_int_less_numeral_power_cancel_iff)
  then have "pow2 e < pow2 31" using e(1) by (simp add: pow2_def)
  then have e52: "e \<le> 52" using pow2_less_cancel by fastforce
  define d where "d = (2 * real_of_int a / 9) / 2 ^ 53"
  have x: "real_of_int b * fl (9 / 10) = real_of_int a + d"
    by (simp add: fl_nine_tenths rb d_def)
  have p: "pow2 (e - 53) = pow2 e / 2 ^ 53"
    by (simp add: pow2_diff) (simp add: pow2_def)
  have p1: "pow2 (e + 1) = 2 * pow2 e"
    by (simp add: pow2_add) (simp add: pow2_def)
  have "2 * real_of_int a / 9 < pow2 e"
    using e(2) p1 a0 by linarith
  then have d1: "d < pow2 (e - 53)"
    unfolding p d_def by (intro divide_strict_right_mono) simp_all
  have d0: "0 \<le> d" using a0 by (simp add: d_def)
  have "fl (real_of_int a + d) = real_of_int a"
    by (rule fl_int_plus [OF e e0 e52 d0 d1])
  then show ?thesis by (simp only: x)
qed

lemma thresholds_int:
  assumes "0 \<le> a" "a < 2 ^ 31" "0 < b" "b < 2 ^ 31"
  shows "(of_int a < fl (of_int b * fl (3 / 10))) = (10 * a < 3 * b)"
    and "(of_int a < fl (of_int b * fl (5 / 10))) = (10 * a < 5 * b)"
    and "(of_int a < fl (of_int b * fl (7 / 10))) = (10 * a < 7 * b)"
    and "(of_int a < fl (of_int b * fl (9 / 10))) = (10 * a < 9 * b)"
proof -
  show "(of_int a < fl (of_int b * fl (3 / 10))) = (10 * a < 3 * b)"
  proof (cases "10 * a = 3 * b")
    case True
    with threshold_tie_below [OF assms(1-3), of "fl (3 / 10)" 3] show ?thesis
      by (simp add: fl_three_tenths)
  next
    case False
    with threshold_off [OF assms, of "fl (3 / 10)" 3] show ?thesis
      by (simp add: fl_three_tenths)
  qed
  show "(of_int a < fl (of_int b * fl (5 / 10))) = (10 * a < 5 * b)"
  proof (cases "10 * a = 5 * b")
    case True
    with threshold_tie_below [OF assms(1-3), of "fl (1 / 2)" 5] show ?thesis
      by (simp add: fl_five_tenths)
  next
    case False
    with threshold_off [OF assms, of "fl (1 / 2)" 5] show ?thesis
      by (simp add: fl_five_tenths)
  qed
  show "(of_int a < fl (of_int b * fl (7 / 10))) = (10 * a < 7 * b)"
  proof (cases "10 * a = 7 * b")
    case True
    with threshold_tie_below [OF assms(1-3), of "fl (7 / 10)" 7] show ?thesis
      by (simp add: fl_seven_tenths)
  next
    case False
    with threshold_off [OF assms, of "fl (7 / 10)" 7] show ?thesis
      by (simp add: fl_seven_tenths)
  qed
  show "(of_int a < fl (of_int b * fl (9 / 10))) = (10 * a < 9 * b)"
  proof (cases "10 * a = 9 * b")
    case True
    with threshold_tie_nine [OF assms(1-3)] show ?thesis
      by simp
  next
    case False
    with threshold_off [OF assms, of "fl (9 / 10)" 9] show ?thesis
      by (simp add: fl_nine_tenths)
  qed
qed

section \<open>Properties of \<open>get_traffic_flow\<close>\<close>

lemma js_round_of_int [simp]: "js_round (of_int k) = k"
  by (simp add: js_round_def)

lemma js_round_numeral [simp]: "js_round (numeral n) = numeral n"
  using js_round_of_int [of "numeral n"] by simp

text \<open>
  For integer speeds below \<open>2 ^ 31\<close> the rounded products decide the tiers exactly as the
  exact products do.
\<close>

lemma flow_condition_int:
  assumes "0 \<le> a" and "a < 2 ^ 31" and "0 < b" and "b < 2 ^ 31"
  shows "flow_condition (of_int a) (of_int b) =
     (if 10 * a < 3 * b then ''severe''
      else if 10 * a < 5 * b then ''heavy''
      else if 10 * a < 7 * b then ''moderate''
      else if 10 * a < 9 * b then ''light''
      else ''clear'')"
  using thresholds_int [OF assms] by (simp add: flow_condition_def)

lemma ratio_int:
  assumes "0 < b"
  shows "(real_of_int a / real_of_int b < real_of_int k / 10) = (10 * a < k * b)"
proof -
  have b: "0 < real_of_int b" using assms by simp
  have "(real_of_int a / real_of_int b < real_of_int k / 10)
        = (real_of_int a * 10 < real_of_int k * real_of_int b)"
    using b by (simp add: field_simps)
  also have "\<dots> = (real_of_int (10 * a) < real_of_int (k * b))"
    by (simp add: mult.commute)
  also have "\<dots> = (10 * a < k * b)"
    by (simp only: of_int_less_iff)
  finally show ?thesis .
qed

text \<open>
  Away from the integers the rounding shows: for the double nearest to 36.9 against 41
  the rounded product \<open>41 * 0.9\<close> is that same double, so the tier is \<open>clear\<close>, although
  the exact ratio of the two doubles is below nine tenths.
\<close>

lemma flow_condition_rounding_example:
  "flow_condition (fl (369 / 10)) 41 = ''clear''"
  "fl (369 / 10) / 41 < 9 / 10"
proof -
  have d: "fl (369 / 10) = 5193213320311603 / 2 ^ 47"
    using fl_binade [of 5 "369 / 10"] by (simp add: pow2_def rne_def Let_def)
  have p9: "fl (41 * (8106479329266893 / 2 ^ 53)) = 5193213320311603 / 2 ^ 47"
    using fl_binade [of 5 "41 * (8106479329266893 / 2 ^ 53)"]
    by (simp add: pow2_def rne_def Let_def)
  have p7: "fl (41 * (6305039478318694 / 2 ^ 53)) = 8078331831595827 / 2 ^ 48"
    using fl_binade [of 4 "41 * (6305039478318694 / 2 ^ 53)"]
    by (simp add: pow2_def rne_def Let_def)
  have p5: "fl (41 * (1 / 2)) = 41 / 2"
    using fl_binade [of 4 "41 * (1 / 2)"] by (simp add: pow2_def rne_def Let_def)
  have p3: "fl (41 * (5404319552844595 / 2 ^ 54)) = 6924284427082137 / 2 ^ 49"
    using fl_binade [of 3 "41 * (5404319552844595 / 2 ^ 54)"]
    by (simp add: pow2_def rne_def Let_def)
  show "flow_condition (fl (369 / 10)) 41 = ''clear''"
    unfolding flow_condition_def fl_three_tenths fl_five_tenths fl_seven_tenths fl_nine_tenths
      p3 p5 p7 p9 d
    by simp
  show "fl (369 / 10) / 41 < 9 / 10"
    unfolding d by simp
qed

text \<open>
  C6.  \<open>get_traffic_flow\<close> classifies congestion by the ratio of the current speed to
  the (positive) free-flow speed: below 30% severe, below 50% heavy, below 70% moderate,
  below 90% light, otherwise clear.  This holds for the integer speeds that the flow
  service reports (here: below \<open>2 ^ 31\<close>); in particular 20 against 80 is severe and 75
  against 80 is clear.
\<close>

theorem get_traffic_flow_tiers:
  assumes "tomtom lat lon = Inr (Some flow)"
    and "currentSpeed flow = of_int a" and "freeFlowSpeed flow = of_int b"
    and "0 \<le> a" and "a < 2 ^ 31" and "0 < b" and "b < 2 ^ 31"
  shows "(\<exists>p. get_traffic_flow tomtom lat lon = Payload p \<and>
            condition p =
              (if currentSpeed flow / freeFlowSpeed flow < 30 / 100 then ''severe''
               else if currentSpeed flow / freeFlowSpeed flow < 50 / 100 then ''heavy''
               else if currentSpeed flow / freeFlowSpeed flow < 70 / 100 then ''moderate''
               else if currentSpeed flow / freeFlowSpeed flow < 90 / 100 then ''light''
               else ''clear''))
       \<and> get_traffic_flow
            (\<lambda>_ _. Inr (Some \<lparr>currentSpeed = 20, freeFlowSpeed = 80, roadClosure = None\<rparr>)) lat lon
          = Payload \<lparr>currentSpeedKmh = 20, freeFlowSpeedKmh = 80,
                     condition = ''severe'', roadClosed = False\<rparr>
       \<and> get_traffic_flow
            (\<lambda>_ _. Inr (Some \<lparr>currentSpeed = 75, freeFlowSpeed = 80, roadClosure = None\<rparr>)) lat lon
          = Payload \<lparr>currentSpeedKmh = 75, freeFlowSpeedKmh = 80,
                     condition = ''clear'', roadClosed = False\<rparr>"
proof -
  have r: "(currentSpeed flow / freeFlowSpeed flow < 30 / 100) = (10 * a < 3 * b)"
    "(currentSpeed flow / freeFlowSpeed flow < 50 / 100) = (10 * a < 5 * b)"
    "(currentSpeed flow / freeFlowSpeed flow < 70 / 100) = (10 * a < 7 * b)"
    "(currentSpeed flow / freeFlowSpeed flow < 90 / 100) = (10 * a < 9 * b)"
    using ratio_int [OF assms(6), of a 3] ratio_int [OF assms(6), of a 5]
      ratio_int [OF assms(6), of a 7] ratio_int [OF assms(6), of a 9]
    by (simp_all add: assms(2,3))
  have "flow_condition (currentSpeed flow) (freeFlowSpeed flow) =
              (if currentSpeed flow / freeFlowSpeed flow < 30 / 100 then ''severe''
               else if currentSpeed flow / freeFlowSpeed flow < 50 / 100 then ''heavy''
               else if currentSpeed flow / freeFlowSpeed flow < 70 / 100 then ''moderate''
               else if currentSpeed flow / freeFlowSpeed flow < 90 / 100 then ''light''
               else ''clear'')"
    unfolding r using flow_condition_int [OF assms(4-7)] by (simp only: assms(2,3))
  then have "\<exists>p. get_traffic_flow tomtom lat lon = Payload p \<and>
            condition p =
              (if currentSpeed flow / freeFlowSpeed flow < 30 / 100 then ''severe''
               else if currentSpeed flow / freeFlowSpeed flow < 50 / 100 then ''heavy''
               else if currentSpeed flow / freeFlowSpeed flow < 70 / 100 then ''moderate''
               else if currentSpeed flow / freeFlowSpeed flow < 90 / 100 then ''light''
               else ''clear'')"
    using assms(1) by (simp add: get_traffic_flow_def)
  moreover have "flow_condition 20 80 = ''severe''"
    using flow_condition_int [of 20 80] by simp
  then have "get_traffic_flow
            (\<lambda>_ _. Inr (Some \<lparr>currentSpeed = 20, freeFlowSpeed = 80, roadClosure = None\<rparr>)) lat lon
          = Payload \<lparr>currentSpeedKmh = 20, freeFlowSpeedKmh = 80,
                     condition = ''severe'', roadClosed = False\<rparr>"
    by (simp add: get_traffic_flow_def)
  moreover have "flow_condition 75 80 = ''clear''"
    using flow_condition_int [of 75 80] by simp
  then have "get_traffic_flow
            (\<lambda>_ _. Inr (Some \<lparr>currentSpeed = 75, freeFlowSpeed = 80, roadClosure = None\<rparr>)) lat lon
          = Payload \<lparr>currentSpeedKmh = 75, freeFlowSpeedKmh = 80,
                     condition = ''clear'', roadClosed = False\<rparr>"
    by (simp add: get_traffic_flow_def)
  ultimately show ?thesis by blast
qed

theorem get_traffic_flow_tiers_witness:
  "get_traffic_flow
     (\<lambda>_ _. Inr (Some \<lparr>currentSpeed = 45, freeFlowSpeed = 100, roadClosure = None\<rparr>)) 25 55
   = Payload \<lparr>currentSpeedKmh = 45, freeFlowSpeedKmh = 100,
              condition = ''heavy'', roadClosed = False\<rparr>"
proof -
  let ?flow = "\<lparr>currentSpeed = 45, freeFlowSpeed = 100, roadClosure = None\<rparr>"
  let ?tomtom = "\<lambda>(_::real) (_::real). (Inr (Some ?flow) :: string + flowSegmentData option)"
  from get_traffic_flow_tiers [of ?tomtom 25 55 ?flow 45 100]
  obtain p where p: "get_traffic_flow ?tomtom 25 55 = Payload p" "condition p = ''heavy''"
    by auto
  have "get_traffic_flow ?tomtom 25 55 =
          Payload \<lparr>currentSpeedKmh = 45, freeFlowSpeedKmh = 100,
                    condition = condition p, roadClosed = False\<rparr>"
    using p(1) by (auto simp: get_traffic_flow_def)
  then show ?thesis using p(2) by simp
qed

text \<open>
  C7 (as amended).  A flagged road closure does not change the tier: \<open>condition\<close> is
  the speed-derived tier whatever \<open>roadClosure\<close> is, and the closure is surfaced as the
  separate boolean \<open>roadClosed\<close>, true exactly when the upstream flag is true.
\<close>

theorem road_closure_separate:
  assumes "tomtom lat lon = Inr (Some flow)"
    and "tomtom' lat lon = Inr (Some (flow\<lparr>roadClosure := c\<rparr>))"
  shows "\<exists>p p'. get_traffic_flow tomtom lat lon = Payload p
           \<and> get_traffic_flow tomtom' lat lon = Payload p'
           \<and> condition p = flow_condition (currentSpeed flow) (freeFlowSpeed flow)
           \<and> condition p' = condition p
           \<and> roadClosed p = (roadClosure flow = Some True)
           \<and> roadClosed p' = (c = Some True)"
  using assms by (auto simp: get_traffic_flow_def split: option.splits)

theorem road_closure_separate_witness:
  "\<exists>p p'. get_traffic_flow
       (\<lambda>_ _. Inr (Some \<lparr>currentSpeed = 30, freeFlowSpeed = 80, roadClosure = None\<rparr>)) 25 55 = Payload p
     \<and> get_traffic_flow
       (\<lambda>_ _. Inr (Some \<lparr>currentSpeed = 30, freeFlowSpeed = 80, roadClosure = Some True\<rparr>)) 25 55 = Payload p'
     \<and> condition p = ''heavy'' \<and> condition p' = ''heavy'' \<and> \<not> roadClosed p \<and> roadClosed p'"
  using road_closure_separate
    [of "\<lambda>_ _. Inr (Some \<lparr>currentSpeed = 30, freeFlowSpeed = 80, roadClosure = None\<rparr>)" 25 55
        "\<lparr>currentSpeed = 30, freeFlowSpeed = 80, roadClosure = None\<rparr>"
        "\<lambda>_ _. Inr (Some \<lparr>currentSpeed = 30, freeFlowSpeed = 80, roadClosure = Some True\<rparr>)"
        "Some True"] flow_condition_int [of 30 80]
  by auto

text \<open>
  The claim as stated fails: with the closure flagged and 75 against 80 the reported
  tier is still the speed-derived \<open>clear\<close>, the same as without the flag.
\<close>

theorem road_closure_counterexample:
  "get_traffic_flow
     (\<lambda>_ _. Inr (Some \<lparr>currentSpeed = 75, freeFlowSpeed = 80, roadClosure = Some True\<rparr>)) 25 55
   = Payload \<lparr>currentSpeedKmh = 75, freeFlowSpeedKmh = 80,
              condition = ''clear'', roadClosed = True\<rparr>
   \<and> get_traffic_flow
     (\<lambda>_ _. Inr (Some \<lparr>currentSpeed = 75, freeFlowSpeed = 80, roadClosure = Some False\<rparr>)) 25 55
   = Payload \<lparr>currentSpeedKmh = 75, freeFlowSpeedKmh = 80,
              condition = ''clear'', roadClosed = False\<rparr>"
  using flow_condition_int [of 75 80] by (simp add: get_traffic_flow_def)

section \<open>Properties of \<open>get_departure_times\<close>\<close>

lemma departure_pass_no_route:
  "no_route (tomtom od (clock offset + int offset * 60 * 1000))
     \<Longrightarrow> departure_pass tomtom clock od results offset = results"
  by (cases "tomtom od (clock offset + int offset * 60 * 1000)")
     (simp_all add: departure_pass_def no_route_def Let_def
           split: option.splits list.splits route.splits split del: if_split)

lemma recommend_nonempty:
  "recommend results = Payload p \<Longrightarrow>
     departureTimes p \<noteq> [] \<and> length (departureTimes p) = length results"
  by (auto simp: recommend_def Let_def split: list.splits)

text \<open>
  C8.  If all four offset computations (0, 30, 60, 120 minutes) fail,
  \<open>get_departure_times\<close> returns the overall failure descriptor; and it never returns a
  success payload whose list of departure times is empty.
\<close>

theorem departure_times_all_fail:
  "((\<forall>offset \<in> set offsets. no_route (tomtom od (clock offset + int offset * 60 * 1000)))
      \<longrightarrow> get_departure_times tomtom clock od
           = ErrorDescriptor ''Could not calculate departure times'')
   \<and> (\<forall>p. get_departure_times tomtom clock od = Payload p \<longrightarrow> departureTimes p \<noteq> [])"
proof (intro conjI impI allI)
  assume a: "\<forall>offset \<in> set offsets. no_route (tomtom od (clock offset + int offset * 60 * 1000))"
  have "foldl (departure_pass tomtom clock od) [] offsets = []"
    using a by (simp add: offsets_def departure_pass_no_route)
  then show "get_departure_times tomtom clock od
           = ErrorDescriptor ''Could not calculate departure times''"
    by (simp add: get_departure_times_def recommend_def)
next
  fix p assume "get_departure_times tomtom clock od = Payload p"
  then show "departureTimes p \<noteq> []"
    using recommend_nonempty by (auto simp: get_departure_times_def)
qed

theorem departure_times_all_fail_witness:
  "get_departure_times (\<lambda>(_::unit) _. Inl ''timeout of 10000ms exceeded'') (\<lambda>_. 0) ()
     = ErrorDescriptor ''Could not calculate departure times''"
  using departure_times_all_fail
    [of "\<lambda>(_::unit) _. Inl ''timeout of 10000ms exceeded''" "()" "\<lambda>_. 0"]
  by (simp add: no_route_def)

section \<open>The recommendation of \<open>get_departure_times\<close>\<close>

lemma show_nat_offsets:
  "show_nat 30 = ''30''" "show_nat 60 = ''60''" "show_nat 120 = ''120''"
  by code_simp+

lemma show_int_5: "show_int 5 = ''5''"
  by code_simp

lemma js_round_0 [simp]: "js_round 0 = 0"
  using js_round_of_int [of 0] by simp

lemma departure_times_spec_example:
  "get_departure_times
     (\<lambda>(_::unit) t.
        if t = 0
          then Inr (Some [Route (Some \<lparr>travelTimeInSeconds = 2400, trafficDelayInSeconds = None\<rparr>)])
        else if t = 1800000
          then Inr (Some [Route (Some \<lparr>travelTimeInSeconds = 2100, trafficDelayInSeconds = None\<rparr>)])
        else if t = 3600000
          then Inr (Some [Route (Some \<lparr>travelTimeInSeconds = 2700, trafficDelayInSeconds = None\<rparr>)])
        else Inr (Some [Route (Some \<lparr>travelTimeInSeconds = 3000, trafficDelayInSeconds = None\<rparr>)]))
     (\<lambda>_. 0) ()
   = Payload
       \<lparr> departureTimes =
           [\<lparr>label = ''Now'', departureTime = 0, durationMinutes = 40,
              trafficDelayMinutes = 0, isBest = Some False\<rparr>,
            \<lparr>label = ''+30 min'', departureTime = 1800000, durationMinutes = 35,
              trafficDelayMinutes = 0, isBest = Some True\<rparr>,
            \<lparr>label = ''+60 min'', departureTime = 3600000, durationMinutes = 45,
              trafficDelayMinutes = 0, isBest = Some False\<rparr>,
            \<lparr>label = ''+120 min'', departureTime = 7200000, durationMinutes = 50,
              trafficDelayMinutes = 0, isBest = Some False\<rparr>],
         recommendation = ''Wait 30 min to save 5 minutes'' \<rparr>"
  by (simp add: get_departure_times_def offsets_def departure_pass_def recommend_def
        show_nat_offsets show_int_5)

lemma foldl_min_duration:
  "foldl (\<lambda>m r. if durationMinutes r < durationMinutes m then r else m) a xs \<in> set (a # xs)
   \<and> (\<forall>r \<in> set (a # xs).
         durationMinutes (foldl (\<lambda>m r. if durationMinutes r < durationMinutes m then r else m) a xs)
           \<le> durationMinutes r)"
proof (induction xs arbitrary: a)
  case Nil
  then show ?case by simp
next
  case (Cons x xs)
  let ?f = "\<lambda>m r. if durationMinutes r < durationMinutes m then r else m"
  show ?case
  proof (cases "durationMinutes x < durationMinutes a")
    case True
    with Cons.IH [of x] show ?thesis by force
  next
    case False
    with Cons.IH [of a] show ?thesis by force
  qed
qed

lemma recommend_best:
  assumes "recommend results = Payload p"
  shows "\<exists>best \<in> set results.
           (\<forall>r \<in> set results. durationMinutes best \<le> durationMinutes r)
         \<and> departureTimes p = map (\<lambda>r. r\<lparr>isBest := Some (label r = label best)\<rparr>) results
         \<and> recommendation p =
              (if label best = ''Now'' then ''Now is the best time to leave!''
               else ''Wait '' @ remove1 (CHR ''+'') (label best) @ '' to save ''
                      @ show_int (durationMinutes (hd results) - durationMinutes best) @ '' minutes'')"
proof (cases results)
  case Nil
  with assms show ?thesis by (simp add: recommend_def)
next
  case (Cons r0 rest)
  let ?best = "foldl (\<lambda>m r. if durationMinutes r < durationMinutes m then r else m) r0 rest"
  from foldl_min_duration [of r0 rest] Cons
  have b: "?best \<in> set results" "\<forall>r \<in> set results. durationMinutes ?best \<le> durationMinutes r"
    by auto
  from assms Cons have
    "p = \<lparr> departureTimes = map (\<lambda>r. r\<lparr>isBest := Some (label r = label ?best)\<rparr>) results,
          recommendation =
            (if label ?best = ''Now'' then ''Now is the best time to leave!''
             else ''Wait '' @ remove1 (CHR ''+'') (label ?best) @ '' to save ''
                    @ show_int (durationMinutes r0 - durationMinutes ?best) @ '' minutes'') \<rparr>"
    by (simp add: recommend_def Let_def)
  with b Cons show ?thesis by (intro bexI [of _ ?best]) auto
qed

lemma departure_pass_labels:
  "map label (departure_pass tomtom clock od results offset) =
     map label results @
       (if no_route (tomtom od (clock offset + int offset * 60 * 1000)) then []
        else [if offset = 0 then ''Now'' else ''+'' @ show_nat offset @ '' min''])"
  by (cases "tomtom od (clock offset + int offset * 60 * 1000)")
     (simp_all add: departure_pass_def no_route_def Let_def
           split: option.splits list.splits route.splits split del: if_split)

lemma departure_labels_distinct:
  "distinct (map label (foldl (departure_pass tomtom clock od) [] offsets))"
  by (simp add: offsets_def departure_pass_labels show_nat_offsets)

lemma get_departure_times_minimum:
  assumes "get_departure_times tomtom clock od = Payload p"
  shows "\<exists>i < length (departureTimes p).
      (\<forall>j < length (departureTimes p).
          durationMinutes (departureTimes p ! i) \<le> durationMinutes (departureTimes p ! j))
    \<and> (\<forall>j < length (departureTimes p). isBest (departureTimes p ! j) = Some (j = i))
    \<and> recommendation p =
         (if label (departureTimes p ! i) = ''Now'' then ''Now is the best time to leave!''
          else ''Wait '' @ remove1 (CHR ''+'') (label (departureTimes p ! i)) @ '' to save ''
                 @ show_int (durationMinutes (departureTimes p ! 0)
                              - durationMinutes (departureTimes p ! i)) @ '' minutes'')"
proof -
  let ?rs = "foldl (departure_pass tomtom clock od) [] offsets"
  from assms have rp: "recommend ?rs = Payload p"
    by (simp add: get_departure_times_def)
  then have ne: "?rs \<noteq> []"
    by (auto simp: recommend_def)
  from recommend_best [OF rp] obtain best where
    best: "best \<in> set ?rs"
      "\<forall>r \<in> set ?rs. durationMinutes best \<le> durationMinutes r"
      "departureTimes p = map (\<lambda>r. r\<lparr>isBest := Some (label r = label best)\<rparr>) ?rs"
      "recommendation p =
         (if label best = ''Now'' then ''Now is the best time to leave!''
          else ''Wait '' @ remove1 (CHR ''+'') (label best) @ '' to save ''
                 @ show_int (durationMinutes (hd ?rs) - durationMinutes best) @ '' minutes'')"
    by blast
  from best(1) obtain i where i: "i < length ?rs" "?rs ! i = best"
    by (auto simp: in_set_conv_nth)
  have d: "distinct (map label ?rs)"
    by (rule departure_labels_distinct)
  have lab: "(label (?rs ! j) = label best) = (j = i)" if "j < length ?rs" for j
    using that d i nth_eq_iff_index_eq [of "map label ?rs" j i] by auto
  have len: "length (departureTimes p) = length ?rs"
    using best(3) by simp
  have nth: "departureTimes p ! j = (?rs ! j)\<lparr>isBest := Some (j = i)\<rparr>" if "j < length ?rs" for j
    using that best(3) lab by simp
  have "i < length (departureTimes p)"
    using i len by simp
  moreover have "\<forall>j < length (departureTimes p).
          durationMinutes (departureTimes p ! i) \<le> durationMinutes (departureTimes p ! j)"
    using best(2) i nth len by simp
  moreover have "\<forall>j < length (departureTimes p). isBest (departureTimes p ! j) = Some (j = i)"
    using nth len by simp
  moreover have "recommendation p =
         (if label (departureTimes p ! i) = ''Now'' then ''Now is the best time to leave!''
          else ''Wait '' @ remove1 (CHR ''+'') (label (departureTimes p ! i)) @ '' to save ''
                 @ show_int (durationMinutes (departureTimes p ! 0)
                              - durationMinutes (departureTimes p ! i)) @ '' minutes'')"
    using best(4) i nth [of i] nth [of 0] ne by (simp add: hd_conv_nth)
  ultimately show ?thesis by blast
qed

lemma departure_pass_hd:
  "results \<noteq> [] \<Longrightarrow>
     departure_pass tomtom clock od results offset \<noteq> []
     \<and> hd (departure_pass tomtom clock od results offset) = hd results"
  by (cases "tomtom od (clock offset + int offset * 60 * 1000)")
     (simp_all add: departure_pass_def Let_def
           split: option.splits list.splits route.splits split del: if_split)

lemma departure_times_baseline_now:
  assumes "tomtom od (clock 0) = Inr (Some (Route (Some sm) # others))"
    and "get_departure_times tomtom clock od = Payload p"
  shows "label (departureTimes p ! 0) = ''Now''
       \<and> durationMinutes (departureTimes p ! 0) = js_round (travelTimeInSeconds sm / 60)"
proof -
  let ?pass = "departure_pass tomtom clock od"
  let ?rs = "foldl ?pass [] offsets"
  have first: "?pass [] 0 \<noteq> [] \<and> label (hd (?pass [] 0)) = ''Now''
      \<and> durationMinutes (hd (?pass [] 0)) = js_round (travelTimeInSeconds sm / 60)"
    using assms(1) by (simp add: departure_pass_def)
  have rs: "?rs = ?pass (?pass (?pass (?pass [] 0) 30) 60) 120"
    by (simp add: offsets_def)
  have "?rs \<noteq> [] \<and> hd ?rs = hd (?pass [] 0)"
    unfolding rs using first departure_pass_hd by metis
  moreover from assms(2) have "recommend ?rs = Payload p"
    by (simp add: get_departure_times_def)
  ultimately show ?thesis
    using first by (auto simp: recommend_def Let_def hd_conv_nth split: list.splits)
qed

text \<open>
  C5.  The claim: for every non-empty list of surviving results the entry of minimum
  duration is recommended and alone has \<open>isBest\<close> true, and when the minimum is not
  the "Now" entry the reported time saved is the duration at offset 0 minus the duration
  at the chosen offset.  The minimum, \<open>isBest\<close> and the example of the specification
  hold (\<open>get_departure_times_minimum\<close>, \<open>departure_times_spec_example\<close>), and
  the time saved is measured against offset 0 whenever that offset survived
  (\<open>departure_times_baseline_now\<close>).  When the offset-0 computation is dropped,
  \<open>results[0]\<close> is the first surviving entry instead: below the call for "now" times
  out, +30 takes 40 minutes and +60 takes 35, and the text reports 5 minutes saved, which
  is measured against the +30 entry.
\<close>

theorem departure_times_now_dropped:
  "get_departure_times
     (\<lambda>(_::unit) t.
        if t = 0 then Inl ''timeout of 10000ms exceeded''
        else if t = 1800000
          then Inr (Some [Route (Some \<lparr>travelTimeInSeconds = 2400, trafficDelayInSeconds = None\<rparr>)])
        else if t = 3600000
          then Inr (Some [Route (Some \<lparr>travelTimeInSeconds = 2100, trafficDelayInSeconds = None\<rparr>)])
        else Inr (Some [Route (Some \<lparr>travelTimeInSeconds = 3000, trafficDelayInSeconds = None\<rparr>)]))
     (\<lambda>_. 0) ()
   = Payload
       \<lparr> departureTimes =
           [\<lparr>label = ''+30 min'', departureTime = 1800000, durationMinutes = 40,
              trafficDelayMinutes = 0, isBest = Some False\<rparr>,
            \<lparr>label = ''+60 min'', departureTime = 3600000, durationMinutes = 35,
              trafficDelayMinutes = 0, isBest = Some True\<rparr>,
            \<lparr>label = ''+120 min'', departureTime = 7200000, durationMinutes = 50,
              trafficDelayMinutes = 0, isBest = Some False\<rparr>],
         recommendation = ''Wait 60 min to save 5 minutes'' \<rparr>"
  by (simp add: get_departure_times_def offsets_def departure_pass_def recommend_def
        show_nat_offsets show_int_5)

section \<open>Properties of \<open>get_incidents\<close>\<close>

text \<open>
  C9.  When the upstream answer has no incidents (an empty or absent list),
  \<open>get_incidents\<close> returns a success payload with an empty incident list and the
  explicit "clear" message, not an error descriptor.
\<close>

theorem get_incidents_clear:
  assumes "tomtom (lat, lon, (case radiusKm of Some r \<Rightarrow> r | None \<Rightarrow> 5)) = Inr found"
    and "found = None \<or> found = Some []"
  shows "get_incidents tomtom lat lon radiusKm =
           Payload \<lparr> incidents = [],
                     clear_message = Some ''No incidents reported in this area - roads are clear!'',
                     totalCount = None \<rparr>"
  using assms by (auto simp: get_incidents_def)

theorem get_incidents_clear_witness:
  "get_incidents (\<lambda>_. Inr (Some [])) 25.2 55.3 None =
           Payload \<lparr> incidents = [],
                     clear_message = Some ''No incidents reported in this area - roads are clear!'',
                     totalCount = None \<rparr>"
  using get_incidents_clear [of "\<lambda>_. Inr (Some [])" "25.2" "55.3" None "Some []"]
  by simp

section \<open>Properties of \<open>search_place\<close>\<close>

text \<open>
  C10.  \<open>search_place\<close> applies the 50 km location bias only when both \<open>nearLat\<close> and
  \<open>nearLon\<close> are supplied and nonzero; if either is absent or 0 the request carries no
  location bias at all.  The request body below is the only thing the search collaborator
  receives from \<open>search_place\<close>.
\<close>

theorem search_place_bias:
  "searchPlaces_body q (search_place_options nearLat nearLon) =
     \<lparr> textQuery = q, languageCode = ''en'', maxResultCount = 20,
       locationBias =
         (case (nearLat, nearLon) of
            (Some a, Some b) \<Rightarrow>
              if a \<noteq> 0 \<and> b \<noteq> 0
              then Some \<lparr>center_latitude = a, center_longitude = b, circle_radius = 50000\<rparr>
              else None
          | _ \<Rightarrow> None) \<rparr>
   \<and> search_place post q nearLat nearLon =
       search_place (\<lambda>_. post (searchPlaces_body q (search_place_options nearLat nearLon)))
         q nearLat nearLon"
  by (auto simp: searchPlaces_body_def search_place_options_def truthy_def search_place_def
        searchPlaces_def split: option.splits)

theorem search_place_bias_witness:
  "locationBias (searchPlaces_body ''Dubai Mall'' (search_place_options (Some 0) (Some 55.27))) = None
   \<and> locationBias (searchPlaces_body ''Dubai Mall'' (search_place_options (Some 25.2) (Some 55.27)))
       = Some \<lparr>center_latitude = 25.2, center_longitude = 55.27, circle_radius = 50000\<rparr>"
  using search_place_bias [of "''Dubai Mall''" "Some 0" "Some 55.27" "\<lambda>_. Inr None"]
    search_place_bias [of "''Dubai Mall''" "Some 25.2" "Some 55.27" "\<lambda>_. Inr None"]
  by simp

section \<open>Properties of the conversation loop\<close>

lemma loop_body_continue:
  assumes "loop_body env history s = Continue s'"
  shows "iterations s' = iterations s + 1
       \<and> length (sent s') = length (sent s) + 1
       \<and> length (executed s') = length (executed s) + 1
       \<and> length (toolsUsed s') = length (toolsUsed s) + 1
       \<and> responseText s' = responseText s"
  using assms
  by (auto simp: loop_body_def Let_def
        split: option.splits list.splits sum.splits prod.splits content.splits)

lemma loop_body_leave:
  assumes "loop_body env history s = Leave c"
  shows "iterations (final_state c) = iterations s + 1
       \<and> length (sent (final_state c)) \<le> length (sent s) + 1
       \<and> length (executed (final_state c)) \<le> length (executed s) + 1
       \<and> length (toolsUsed (final_state c)) \<le> length (toolsUsed s) + 1"
  using assms
  by (auto simp: loop_body_def Let_def final_state_def
        split: option.splits list.splits sum.splits prod.splits content.splits)

lemma chat_loop_bounds:
  "iterations (final_state (chat_loop env history s)) \<le> max maxIterations (iterations s)
   \<and> iterations s \<le> iterations (final_state (chat_loop env history s))
   \<and> length (sent (final_state (chat_loop env history s))) + iterations s
        \<le> length (sent s) + iterations (final_state (chat_loop env history s))
   \<and> length (executed (final_state (chat_loop env history s))) + iterations s
        \<le> length (executed s) + iterations (final_state (chat_loop env history s))
   \<and> length (toolsUsed (final_state (chat_loop env history s))) + iterations s
        \<le> length (toolsUsed s) + iterations (final_state (chat_loop env history s))"
proof (induction env history s rule: chat_loop.induct)
  case (1 env history s)
  show ?case
  proof (cases "iterations s < maxIterations")
    case False
    then show ?thesis
      by (simp add: chat_loop.simps [of env history s] final_state_def)
  next
    case True
    show ?thesis
    proof (cases "loop_body env history s")
      case (Continue s')
      then have eq: "chat_loop env history s = chat_loop env history s'"
        using True by (simp add: chat_loop.simps [of env history s])
      from "1.IH" [OF True Continue] loop_body_continue [OF Continue] True
      show ?thesis unfolding eq by auto
    next
      case (Leave c)
      then have eq: "chat_loop env history s = c"
        using True by (simp add: chat_loop.simps [of env history s])
      from loop_body_leave [OF Leave] True
      show ?thesis unfolding eq by auto
    qed
  qed
qed

text \<open>
  C2.  Whatever the model and the tools answer, each call returning a value or throwing,
  the conversation loop of \<open>chat\<close> ends after at most 5 passes: \<open>chat_loop\<close> is a
  total function (its termination is proved with the measure
  \<open>maxIterations - iterations\<close>), and when control leaves it \<open>iterations\<close> is at most
  5, at most 6 messages were sent to the model and at most 5 executor calls were made.
\<close>

theorem chat_terminates_within_bound:
  "iterations (final_state (chat_run env msg loc history)) \<le> 5
   \<and> length (sent (final_state (chat_run env msg loc history))) \<le> 6
   \<and> length (executed (final_state (chat_run env msg loc history))) \<le> 5
   \<and> length (toolsUsed (final_state (chat_run env msg loc history))) \<le> 5"
proof (cases "sendMessage env history [UserMessage loc msg]")
  case (Inl err)
  then show ?thesis
    by (simp add: chat_run_def final_state_def)
next
  case (Inr r)
  let ?s = "\<lparr> response = r, responseText = [], iterations = 0, toolsUsed = [],
              sent = [UserMessage loc msg], executed = [] \<rparr>"
  have eq: "chat_run env msg loc history = chat_loop env history ?s"
    using Inr by (simp add: chat_run_def)
  from chat_loop_bounds [of env history ?s]
  show ?thesis unfolding eq by (simp add: maxIterations_def)
qed

theorem chat_terminates_within_bound_witness:
  "iterations (final_state
      (chat_run (fixed_model (Inr (tool_turn ''get_traffic_flow''))) ''How is E11?'' None [])) \<le> 5"
  using chat_terminates_within_bound
    [of "fixed_model (Inr (tool_turn ''get_traffic_flow''))" "''How is E11?''" None "[]"]
  by simp


lemma toolExecutors_examples:
  "toolExecutors ''get_incidents'' = Some Tool"
  "toolExecutors ''toString'' = Some Inherited"
  "toolExecutors ''book_taxi'' = None"
  by (simp_all add: toolExecutors_def TRAFFIC_TOOLS_def object_prototype_keys_def)

lemma loop_body_leave_not_bound:
  "loop_body env history s = Leave (Exited r s') \<Longrightarrow> r \<noteq> BoundReached"
  by (auto simp: loop_body_def Let_def
        split: option.splits list.splits sum.splits prod.splits content.splits)

lemma chat_loop_bound_reached:
  "chat_loop env history s = Exited BoundReached s' \<Longrightarrow> iterations s \<le> maxIterations
     \<Longrightarrow> responseText s' = responseText s
       \<and> iterations s' = maxIterations
       \<and> length (toolsUsed s') + iterations s = length (toolsUsed s) + maxIterations
       \<and> length (executed s') + iterations s = length (executed s) + maxIterations
       \<and> length (sent s') + iterations s = length (sent s) + maxIterations"
proof (induction env history s rule: chat_loop.induct)
  case (1 env history s)
  show ?case
  proof (cases "iterations s < maxIterations")
    case False
    with "1.prems" show ?thesis
      by (auto simp: chat_loop.simps [of env history s])
  next
    case True
    show ?thesis
    proof (cases "loop_body env history s")
      case (Continue s1)
      then have eq: "chat_loop env history s = chat_loop env history s1"
        using True by (simp add: chat_loop.simps [of env history s])
      note c = loop_body_continue [OF Continue]
      from "1.IH" [OF True Continue] "1.prems" c True
      show ?thesis unfolding eq by auto
    next
      case (Leave c)
      then have eq: "chat_loop env history s = c"
        using True by (simp add: chat_loop.simps [of env history s])
      from loop_body_leave_not_bound [of env history s] Leave "1.prems"
      show ?thesis unfolding eq by auto
    qed
  qed
qed

lemma loop_body_leave_cases:
  assumes "loop_body env history s = Leave c"
  shows "(\<forall>r s'. c = Exited r s' \<longrightarrow> \<not> requests_tool (response s'))
       \<and> (\<forall>err s'. c = Thrown err s' \<longrightarrow>
             \<not> requests_tool (response s')
             \<or> sendMessage env history (sent s') = Inl err
             \<or> (\<exists>name a. executed s' \<noteq> [] \<and> last (executed s') = (name, a)
                   \<and> runTool env (iterations s') name a = Inl err))"
  using assms
  by (auto simp: loop_body_def Let_def requests_tool_def toolExecutors_def call_executor_def
        split: option.splits list.splits sum.splits prod.splits content.splits
          candidate.splits if_splits executor.splits)

lemma chat_loop_exit_cases:
  "(\<forall>r s'. chat_loop env history s = Exited r s' \<longrightarrow> r \<noteq> BoundReached \<longrightarrow>
       \<not> requests_tool (response s'))
   \<and> (\<forall>err s'. chat_loop env history s = Thrown err s' \<longrightarrow>
         \<not> requests_tool (response s')
         \<or> sendMessage env history (sent s') = Inl err
         \<or> (\<exists>name a. executed s' \<noteq> [] \<and> last (executed s') = (name, a)
               \<and> runTool env (iterations s') name a = Inl err))"
proof (induction env history s rule: chat_loop.induct)
  case (1 env history s)
  show ?case
  proof (cases "iterations s < maxIterations")
    case False
    then show ?thesis
      by (simp add: chat_loop.simps [of env history s])
  next
    case True
    show ?thesis
    proof (cases "loop_body env history s")
      case (Continue s1)
      then have eq: "chat_loop env history s = chat_loop env history s1"
        using True by (simp add: chat_loop.simps [of env history s])
      from "1.IH" [OF True Continue] show ?thesis
        unfolding eq .
    next
      case (Leave c)
      then have eq: "chat_loop env history s = c"
        using True by (simp add: chat_loop.simps [of env history s])
      from loop_body_leave_cases [OF Leave] show ?thesis
        unfolding eq by blast
    qed
  qed
qed

text \<open>
  C1 (as amended).  If the model requests a registered tool on every turn that the run
  examines and no call of the run throws, the loop is left because the bound of 5 passes is
  reached, and \<open>chat\<close> then returns the normal outcome: the success flag is true, the
  message is empty, and the used-tools list has length exactly 5 (5 executor calls were
  made, 6 messages were sent and the sixth answer is never examined).  Stated on the run
  itself: a run that ends at the bound has that outcome; a run that leaves the loop in
  another way ends on a turn that does not request a registered tool; and a run that
  ends in a thrown error ends on such a turn, or on a rejected \<open>sendMessage\<close>, or on a
  registered executor that threw.
\<close>

theorem six_tool_requests:
  "(\<forall>s. chat_run env msg loc history = Exited BoundReached s \<longrightarrow>
       chat env msg loc history =
         \<lparr>success = True, message = [], toolsUsed_out = Some (toolsUsed s), error = None\<rparr>
       \<and> length (toolsUsed s) = 5 \<and> length (executed s) = 5 \<and> length (sent s) = 6)
   \<and> (\<forall>r s. chat_run env msg loc history = Exited r s \<longrightarrow> r \<noteq> BoundReached \<longrightarrow>
         \<not> requests_tool (response s))
   \<and> (\<forall>err s. chat_run env msg loc history = Thrown err s \<longrightarrow>
         \<not> requests_tool (response s)
         \<or> sendMessage env history (sent s) = Inl err
         \<or> (\<exists>name a. executed s \<noteq> [] \<and> last (executed s) = (name, a)
               \<and> runTool env (iterations s) name a = Inl err))"
proof (intro conjI allI impI)
  fix s assume ex: "chat_run env msg loc history = Exited BoundReached s"
  then obtain r where r: "sendMessage env history [UserMessage loc msg] = Inr r"
    by (cases "sendMessage env history [UserMessage loc msg]") (auto simp: chat_run_def)
  let ?s = "\<lparr> response = r, responseText = [], iterations = 0, toolsUsed = [],
              sent = [UserMessage loc msg], executed = [] \<rparr>"
  from ex r have "chat_loop env history ?s = Exited BoundReached s"
    by (simp add: chat_run_def)
  from chat_loop_bound_reached [OF this]
  have b: "responseText s = []" "length (toolsUsed s) = 5" "length (executed s) = 5"
    "length (sent s) = 6"
    by (simp_all add: maxIterations_def)
  from b show "length (toolsUsed s) = 5" "length (executed s) = 5" "length (sent s) = 6"
    by simp_all
  from ex b(1) show "chat env msg loc history =
         \<lparr>success = True, message = [], toolsUsed_out = Some (toolsUsed s), error = None\<rparr>"
    by (simp add: chat_def assemble_def)
next
  fix r s assume ex: "chat_run env msg loc history = Exited r s" and nb: "r \<noteq> BoundReached"
  then obtain r0 where r0: "sendMessage env history [UserMessage loc msg] = Inr r0"
    by (cases "sendMessage env history [UserMessage loc msg]") (auto simp: chat_run_def)
  let ?s = "\<lparr> response = r0, responseText = [], iterations = 0, toolsUsed = [],
              sent = [UserMessage loc msg], executed = [] \<rparr>"
  from ex r0 have "chat_loop env history ?s = Exited r s"
    by (simp add: chat_run_def)
  with chat_loop_exit_cases [of env history ?s] nb
  show "\<not> requests_tool (response s)" by blast
next
  fix err s assume th: "chat_run env msg loc history = Thrown err s"
  show "\<not> requests_tool (response s)
         \<or> sendMessage env history (sent s) = Inl err
         \<or> (\<exists>name a. executed s \<noteq> [] \<and> last (executed s) = (name, a)
               \<and> runTool env (iterations s) name a = Inl err)"
  proof (cases "sendMessage env history [UserMessage loc msg]")
    case (Inl e)
    with th show ?thesis
      by (auto simp: chat_run_def)
  next
    case (Inr r0)
    let ?s = "\<lparr> response = r0, responseText = [], iterations = 0, toolsUsed = [],
                sent = [UserMessage loc msg], executed = [] \<rparr>"
    from th Inr have "chat_loop env history ?s = Thrown err s"
      by (simp add: chat_run_def)
    with chat_loop_exit_cases [of env history ?s] show ?thesis by blast
  qed
qed

theorem six_tool_requests_witness:
  "(\<exists>tu. chat (fixed_model (Inr (tool_turn ''get_incidents'')))
           ''Any accidents near me?'' None [] =
          \<lparr>success = True, message = [], toolsUsed_out = Some tu, error = None\<rparr>
       \<and> length tu = 5)
   \<and> \<not> requests_tool
         (response (final_state (chat_run (fixed_model (Inr None)) ''Any accidents near me?'' None [])))"
proof -
  let ?env = "fixed_model (Inr (tool_turn ''get_incidents''))"
  let ?env' = "fixed_model (Inr None)"
  note t = six_tool_requests [of ?env "''Any accidents near me?''" None "[]"]
  note t' = six_tool_requests [of ?env' "''Any accidents near me?''" None "[]"]
  have "\<exists>s. chat_run ?env ''Any accidents near me?'' None [] = Exited BoundReached s"
    by (simp add: fixed_model_def chat_run_def chat_loop.simps loop_body_def
        tool_turn_def find_functionCall_def toolExecutors_def TRAFFIC_TOOLS_def
        call_executor_def maxIterations_def)
  then obtain s where "chat_run ?env ''Any accidents near me?'' None [] = Exited BoundReached s"
    by blast
  with t have 1: "\<exists>tu. chat ?env ''Any accidents near me?'' None [] =
          \<lparr>success = True, message = [], toolsUsed_out = Some tu, error = None\<rparr>
       \<and> length tu = 5"
    by blast
  have "\<exists>s. chat_run ?env' ''Any accidents near me?'' None [] = Exited NoCandidate s"
    by (simp add: fixed_model_def chat_run_def chat_loop.simps loop_body_def maxIterations_def)
  then obtain s' where
    s': "chat_run ?env' ''Any accidents near me?'' None [] = Exited NoCandidate s'"
    by blast
  with t' have "\<not> requests_tool (response s')" by blast
  with s' have 2: "\<not> requests_tool
         (response (final_state (chat_run ?env' ''Any accidents near me?'' None [])))"
    by (simp add: final_state_def)
  from 1 2 show ?thesis by blast
qed

text \<open>
  The claim as stated fails: six tool requests in a row give an outcome whose success flag
  is true, not a failure.
\<close>

theorem six_tool_requests_counterexample:
  "chat (fixed_model (Inr (tool_turn ''get_incidents'')))
      ''Any accidents near me?'' None ([] :: unit list) =
     \<lparr>success = True, message = [],
      toolsUsed_out = Some [''get_incidents'', ''get_incidents'', ''get_incidents'',
                            ''get_incidents'', ''get_incidents''],
      error = None\<rparr>"
  by (simp add: fixed_model_def chat_def chat_run_def assemble_def chat_loop.simps loop_body_def
        tool_turn_def find_functionCall_def toolExecutors_def TRAFFIC_TOOLS_def
        call_executor_def maxIterations_def)




lemma loop_body_leave_text:
  assumes "loop_body env history s = Leave c"
  shows "\<forall>r s'. c = Exited r s' \<longrightarrow> r \<noteq> FinalText \<longrightarrow> responseText s' = responseText s"
  using assms
  by (auto simp: loop_body_def Let_def
        split: option.splits list.splits sum.splits prod.splits content.splits)

lemma chat_loop_text:
  "chat_loop env history s = Exited r s' \<Longrightarrow> r \<noteq> FinalText
     \<Longrightarrow> responseText s' = responseText s"
proof (induction env history s rule: chat_loop.induct)
  case (1 env history s)
  show ?case
  proof (cases "iterations s < maxIterations")
    case False
    with "1.prems" show ?thesis
      by (simp add: chat_loop.simps [of env history s])
  next
    case True
    show ?thesis
    proof (cases "loop_body env history s")
      case (Continue s1)
      then have eq: "chat_loop env history s = chat_loop env history s1"
        using True by (simp add: chat_loop.simps [of env history s])
      from "1.IH" [OF True Continue] "1.prems" loop_body_continue [OF Continue]
      show ?thesis unfolding eq by simp
    next
      case (Leave c)
      then have eq: "chat_loop env history s = c"
        using True by (simp add: chat_loop.simps [of env history s])
      from loop_body_leave_text [OF Leave] "1.prems"
      show ?thesis unfolding eq by simp
    qed
  qed
qed

text \<open>
  C4 (as amended).  When an error is thrown inside \<open>chat\<close>, the outcome has the success
  flag false and carries the fixed friendly message.  When control leaves the loop without
  a final text and without an error (no candidate in the model turn, an unknown tool, the
  bound of 5 passes reached), the outcome has the success flag true, an empty message and
  no error property.
\<close>

theorem chat_fatal_paths:
  "(\<forall>err s. chat_run env msg loc history = Thrown err s \<longrightarrow>
       \<not> success (chat env msg loc history)
       \<and> message (chat env msg loc history) = friendly_message)
   \<and> (\<forall>r s. chat_run env msg loc history = Exited r s \<longrightarrow> r \<noteq> FinalText \<longrightarrow>
       success (chat env msg loc history)
       \<and> message (chat env msg loc history) = []
       \<and> error (chat env msg loc history) = None)"
proof (intro conjI allI impI)
  fix err s assume "chat_run env msg loc history = Thrown err s"
  then show "\<not> success (chat env msg loc history)"
    and "message (chat env msg loc history) = friendly_message"
    by (simp_all add: chat_def assemble_def)
next
  fix r s assume ex: "chat_run env msg loc history = Exited r s" and r: "r \<noteq> FinalText"
  then show "success (chat env msg loc history)" and "error (chat env msg loc history) = None"
    by (simp_all add: chat_def assemble_def)
  have "responseText s = []"
  proof (cases "sendMessage env history [UserMessage loc msg]")
    case (Inl e)
    with ex show ?thesis by (simp add: chat_run_def)
  next
    case (Inr resp)
    with ex have "chat_loop env history
        \<lparr> response = resp, responseText = [], iterations = 0, toolsUsed = [],
          sent = [UserMessage loc msg], executed = [] \<rparr> = Exited r s"
      by (simp add: chat_run_def)
    from chat_loop_text [OF this r] show ?thesis by simp
  qed
  with ex show "message (chat env msg loc history) = []"
    by (simp add: chat_def assemble_def)
qed

theorem chat_fatal_paths_witness:
  "message (chat (fixed_model (Inl ''API key not valid'')) ''Hello'' None []) = friendly_message
   \<and> message (chat (fixed_model (Inr None)) ''Hello'' None []) = []"
proof -
  let ?e1 = "fixed_model (Inl ''API key not valid'')"
  let ?e2 = "fixed_model (Inr None)"
  have 1: "chat_run ?e1 ''Hello'' None [] =
             Thrown ''API key not valid''
               \<lparr> response = None, responseText = [], iterations = 0, toolsUsed = [],
                 sent = [UserMessage None ''Hello''], executed = [] \<rparr>"
    by (simp add: fixed_model_def chat_run_def)
  have 2: "chat_run ?e2 ''Hello'' None [] =
             Exited NoCandidate
               \<lparr> response = None, responseText = [], iterations = 1, toolsUsed = [],
                 sent = [UserMessage None ''Hello''], executed = [] \<rparr>"
    by (simp add: fixed_model_def chat_run_def chat_loop.simps loop_body_def maxIterations_def)
  from chat_fatal_paths [of ?e1 "''Hello''" None "[]"] 1
  have "message (chat ?e1 ''Hello'' None []) = friendly_message" by simp
  moreover from chat_fatal_paths [of ?e2 "''Hello''" None "[]"] 2
  have "message (chat ?e2 ''Hello'' None []) = []" by simp
  ultimately show ?thesis by simp
qed

text \<open>
  The claim as stated fails at the route: a model turn without candidates is answered
  with a success and an empty message, not the friendly message; and when the model call
  throws, the answer carries the message of the thrown error in its \<open>error\<close> property.
\<close>

theorem chat_fatal_paths_counterexample:
  "post_chat (fixed_model (Inr None))
     \<lparr>body_message = Some ''Hello'', body_userLocation = None,
      body_conversationHistory = Absent\<rparr>
   = Ok \<lparr>success = True, message = [], toolsUsed_out = Some [], error = None\<rparr>
   \<and> post_chat (fixed_model (Inl ''API key not valid''))
     \<lparr>body_message = Some ''Hello'', body_userLocation = None,
      body_conversationHistory = Absent\<rparr>
   = Ok \<lparr>success = False, message = friendly_message, toolsUsed_out = None,
         error = Some ''API key not valid''\<rparr>"
  by (simp add: fixed_model_def post_chat_def is_space_def white3_def utf16_length_def chat_def chat_run_def assemble_def chat_loop.simps
        loop_body_def maxIterations_def)

end
